theory Spec2Isabelle
  imports Main "HOL-Library.Sublist"
begin

section \<open>Python values used by \<open>varmap/record.py\<close>\<close>

text \<open>
  Exceptions are values. \<open>InvalidInputError\<close> is the exception of \<open>varmap/err.py\<close> that
  \<open>parse_pos\<close> raises with its message; the others are Python's own.
\<close>

datatype exn =
    InvalidInputError string
  | ValueError
  | SyntaxError
  | ZeroDivisionError
  | AttributeError
  | TypeError

text \<open>
  The outcome of a call: it returns a value, it raises, or it leaves what this development
  tracks. \<open>Untracked\<close> stands for a float and for whatever float arithmetic does from
  there on, a value or an exception (see \<open>eval_expr\<close>); nothing is stated about it.
\<close>

datatype 'a outcome = Returns 'a | Raises exn | Untracked

subsection \<open>Decimal text of integers\<close>

text \<open>
  A character is a code point below 256 (Python 3 strings, Latin-1 range); code points
  from 256 on are outside this development. \<open>is_digit\<close> is an ASCII digit, which is what
  \<open>\d\<close> and \<open>0-9\<close> match in this range. \<open>str.isdigit\<close> is also true of the superscripts
  U+00B2, U+00B3 and U+00B9 (\<open>is_unicode_digit\<close>), which \<open>int\<close> does not read:
  \<open>py_int s\<close> is \<open>int(s)\<close> on a string for which \<open>isdigit\<close> holds, a \<open>ValueError\<close> when
  a superscript is in it. \<open>str_int\<close> is \<open>str(i)\<close> and \<open>'%d' % i\<close> on a Python integer;
  \<open>int_of_digits\<close> is the number that a string of ASCII digits denotes.
\<close>

definition is_digit :: "char \<Rightarrow> bool" where
  "is_digit c = (48 \<le> (of_char c :: nat) \<and> (of_char c :: nat) \<le> 57)"

definition digit_val :: "char \<Rightarrow> nat" where
  "digit_val c = (of_char c :: nat) - 48"

definition digit_char :: "nat \<Rightarrow> char" where
  "digit_char d = char_of (48 + d)"

fun str_nat :: "nat \<Rightarrow> string" where
  "str_nat n = (if n < 10 then [digit_char n] else str_nat (n div 10) @ [digit_char (n mod 10)])"

declare str_nat.simps [simp del]

definition str_int :: "int \<Rightarrow> string" where
  "str_int i = (if i < 0 then CHR ''-'' # str_nat (nat (- i)) else str_nat (nat i))"

definition int_of_digits :: "string \<Rightarrow> int" where
  "int_of_digits s = foldl (\<lambda>a c. 10 * a + int (digit_val c)) 0 s"

definition is_unicode_digit :: "char \<Rightarrow> bool" where
  "is_unicode_digit c =
     (is_digit c \<or> (of_char c :: nat) = 178 \<or> (of_char c :: nat) = 179
      \<or> (of_char c :: nat) = 185)"

definition isdigit :: "string \<Rightarrow> bool" where
  "isdigit s = (s \<noteq> [] \<and> list_all is_unicode_digit s)"

definition py_int :: "string \<Rightarrow> int outcome" where
  "py_int s =
     (if s \<noteq> [] \<and> list_all is_digit s then Returns (int_of_digits s) else Raises ValueError)"

section \<open>Pos: a position with an offset from the exon boundary\<close>

record Pos =
  pos :: int
  tpos :: int

text \<open>\<open>Pos.add\<close> and \<open>Pos.subtract\<close> mutate the object; here they return the new one.\<close>

definition add :: "Pos \<Rightarrow> int \<Rightarrow> Pos" where
  "add p inc = (if tpos p = 0 then p\<lparr>pos := pos p + inc\<rparr> else p\<lparr>tpos := tpos p + inc\<rparr>)"

definition subtract :: "Pos \<Rightarrow> int \<Rightarrow> Pos" where
  "subtract p inc = (if tpos p = 0 then p\<lparr>pos := pos p - inc\<rparr> else p\<lparr>tpos := tpos p - inc\<rparr>)"

text \<open>
  \<open>Pos.__repr__\<close>: the three branches on the sign of \<open>tpos\<close>, and on the sign of \<open>pos\<close>
  when \<open>tpos\<close> is positive.
\<close>

definition repr :: "Pos \<Rightarrow> string" where
  "repr p =
     (if tpos p < 0 then str_int (pos p) @ str_int (tpos p)
      else if tpos p > 0 then
        (if pos p < 0 then ''*'' @ str_int (tpos p)
         else str_int (pos p) @ ''+'' @ str_int (tpos p))
      else str_int (pos p))"

subsection \<open>The two patterns of \<open>parse_pos\<close>\<close>

text \<open>
  \<open>cls_sign\<close> is the character class \<open>[+\-0-9]\<close> and \<open>cls_star\<close> is \<open>[*+\-0-9]\<close>.
\<close>

definition cls_sign :: "char \<Rightarrow> bool" where
  "cls_sign c = (c = CHR ''+'' \<or> c = CHR ''-'' \<or> is_digit c)"

definition cls_star :: "char \<Rightarrow> bool" where
  "cls_star c = (c = CHR ''*'' \<or> cls_sign c)"

text \<open>
  \<open>re.match(r'(\d+)([+\-0-9]+)', s)\<close> matches at the start of \<open>s\<close> and need not reach its
  end. Both groups are greedy: the first takes the longest run of digits, and gives digits
  back one at a time, longest first, until the second group finds at least one character.
  \<open>try_split k s\<close> tries the first group at lengths \<open>k\<close>, \<open>k - 1\<close>, ..., 1; the second
  group is then the longest run of \<open>[+\-0-9]\<close> that follows.
\<close>

fun try_split :: "nat \<Rightarrow> string \<Rightarrow> (string \<times> string) option" where
  "try_split 0 s = None"
| "try_split (Suc k) s =
     (let g2 = takeWhile cls_sign (drop (Suc k) s)
      in if g2 = [] then try_split k s else Some (take (Suc k) s, g2))"

definition match_digits_signed :: "string \<Rightarrow> (string \<times> string) option" where
  "match_digits_signed s = try_split (length (takeWhile is_digit s)) s"

text \<open>\<open>re.match(r'([*+\-0-9]+)', s)\<close>: the longest run of the class at the start.\<close>

definition match_star_signed :: "string \<Rightarrow> string option" where
  "match_star_signed s =
     (let g = takeWhile cls_star s in if g = [] then None else Some g)"

subsection \<open>\<open>eval\<close> on what the patterns pass to it\<close>

text \<open>
  \<open>parse_pos\<close> calls Python's \<open>eval\<close> on a group of the patterns above, a string over
  \<open>0-9 + - *\<close>. On these strings Python's expression grammar is
  \<^verbatim>\<open>
  arith_expr: term (('+'|'-') term)*
  term:       factor ('*' factor)*
  factor:     ('+'|'-') factor | power
  power:      NUMBER ['**' factor]
  \<close>
  The lexer takes \<open>**\<close> before \<open>*\<close>. A decimal literal is a run of zeros, or a run of digits
  that does not start with \<open>0\<close>; any other run of digits is a syntax error (Python 3).
  Integers are unbounded.
\<close>

datatype token = NUM int | PLUS | MINUS | STAR | DSTAR

definition number_token :: "string \<Rightarrow> token list option" where
  "number_token run =
     (if run = [] then Some []
      else if hd run = CHR ''0'' \<and> \<not> list_all (\<lambda>c. c = CHR ''0'') run then None
      else Some [NUM (int_of_digits run)])"

definition emit :: "string \<Rightarrow> token \<Rightarrow> token list option \<Rightarrow> token list option" where
  "emit run tk rest =
     (case number_token run of None \<Rightarrow> None
      | Some n \<Rightarrow> (case rest of None \<Rightarrow> None | Some ts \<Rightarrow> Some (n @ tk # ts)))"

text \<open>\<open>lex run s\<close>: \<open>run\<close> is the run of digits read so far; \<open>None\<close> is a syntax error.\<close>

fun lex :: "string \<Rightarrow> string \<Rightarrow> token list option" where
  "lex run [] = number_token run"
| "lex run (c # cs) =
     (if is_digit c then lex (run @ [c]) cs
      else if c = CHR ''+'' then emit run PLUS (lex [] cs)
      else if c = CHR ''-'' then emit run MINUS (lex [] cs)
      else if c = CHR ''*'' then
        (if cs \<noteq> [] \<and> hd cs = CHR ''*'' then emit run DSTAR (lex [] (tl cs))
         else emit run STAR (lex [] cs))
      else None)"

datatype expr =
    Num int
  | UPlus expr
  | UMinus expr
  | Add expr expr
  | Sub expr expr
  | Mul expr expr
  | Pow expr expr

fun parse_factor :: "token list \<Rightarrow> (expr \<times> token list) option" where
  "parse_factor (PLUS # ts) =
     (case parse_factor ts of None \<Rightarrow> None | Some (e, r) \<Rightarrow> Some (UPlus e, r))"
| "parse_factor (MINUS # ts) =
     (case parse_factor ts of None \<Rightarrow> None | Some (e, r) \<Rightarrow> Some (UMinus e, r))"
| "parse_factor (NUM n # DSTAR # ts) =
     (case parse_factor ts of None \<Rightarrow> None | Some (e, r) \<Rightarrow> Some (Pow (Num n) e, r))"
| "parse_factor (NUM n # ts) = Some (Num n, ts)"
| "parse_factor _ = None"

lemma parse_factor_shorter:
  "parse_factor ts = Some (e, r) \<Longrightarrow> length r < length ts"
  by (induction ts arbitrary: e r rule: parse_factor.induct)
     (auto split: option.splits prod.splits)

function parse_term_rest :: "expr \<Rightarrow> token list \<Rightarrow> (expr \<times> token list) option" where
  "parse_term_rest e ts =
     (case ts of
        STAR # ts' \<Rightarrow>
          (case parse_factor ts' of None \<Rightarrow> None
           | Some (f, r) \<Rightarrow> parse_term_rest (Mul e f) r)
      | _ \<Rightarrow> Some (e, ts))"
  by pat_completeness auto
termination
  by (relation "measure (\<lambda>(e, ts). length ts)") (auto dest: parse_factor_shorter)

declare parse_term_rest.simps [simp del]

definition parse_term :: "token list \<Rightarrow> (expr \<times> token list) option" where
  "parse_term ts =
     (case parse_factor ts of None \<Rightarrow> None | Some (f, r) \<Rightarrow> parse_term_rest f r)"

lemma parse_term_rest_shorter:
  "parse_term_rest e ts = Some (e', r) \<Longrightarrow> length r \<le> length ts"
proof (induction e ts arbitrary: e' r rule: parse_term_rest.induct)
  case (1 e ts)
  then show ?case
    apply (subst (asm) (2) parse_term_rest.simps)
    apply (auto split: list.splits token.splits option.splits dest!: parse_factor_shorter)
    by fastforce
qed

lemma parse_term_shorter:
  "parse_term ts = Some (e, r) \<Longrightarrow> length r < length ts"
  by (auto simp: parse_term_def split: option.splits
      dest!: parse_factor_shorter parse_term_rest_shorter)

function parse_arith_rest :: "expr \<Rightarrow> token list \<Rightarrow> (expr \<times> token list) option" where
  "parse_arith_rest e ts =
     (case ts of
        PLUS # ts' \<Rightarrow>
          (case parse_term ts' of None \<Rightarrow> None
           | Some (f, r) \<Rightarrow> parse_arith_rest (Add e f) r)
      | MINUS # ts' \<Rightarrow>
          (case parse_term ts' of None \<Rightarrow> None
           | Some (f, r) \<Rightarrow> parse_arith_rest (Sub e f) r)
      | _ \<Rightarrow> Some (e, ts))"
  by pat_completeness auto
termination
  by (relation "measure (\<lambda>(e, ts). length ts)") (auto dest: parse_term_shorter)

declare parse_arith_rest.simps [simp del]

text \<open>The whole string must be one expression: tokens left over are a syntax error.\<close>

definition parse_expr :: "token list \<Rightarrow> expr option" where
  "parse_expr ts =
     (case parse_term ts of None \<Rightarrow> None
      | Some (f, r) \<Rightarrow>
          (case parse_arith_rest f r of Some (e, []) \<Rightarrow> Some e | _ \<Rightarrow> None))"

text \<open>
  \<open>b ** e\<close> on integers: an integer when \<open>e\<close> is not negative; \<open>ZeroDivisionError\<close> when
  \<open>b\<close> is 0 and \<open>e\<close> negative; otherwise Python leaves the integers (a float, or an
  \<open>OverflowError\<close> of the conversion), which is \<open>Untracked\<close>. Operands are evaluated left
  to right and the first exception is the one raised; once an operand is \<open>Untracked\<close> so
  is the result, since float arithmetic may raise before the other operand is reached.
\<close>

definition py_pow :: "int \<Rightarrow> int \<Rightarrow> int outcome" where
  "py_pow b e =
     (if 0 \<le> e then Returns (b ^ nat e)
      else if b = 0 then Raises ZeroDivisionError
      else Untracked)"

definition binop :: "(int \<Rightarrow> int \<Rightarrow> int outcome) \<Rightarrow> int outcome \<Rightarrow> int outcome \<Rightarrow> int outcome" where
  "binop f x y =
     (case x of
        Raises a \<Rightarrow> Raises a
      | Untracked \<Rightarrow> Untracked
      | Returns a \<Rightarrow>
          (case y of Returns b \<Rightarrow> f a b | Raises b \<Rightarrow> Raises b | Untracked \<Rightarrow> Untracked))"

definition unop :: "(int \<Rightarrow> int) \<Rightarrow> int outcome \<Rightarrow> int outcome" where
  "unop f x =
     (case x of Returns a \<Rightarrow> Returns (f a) | Raises a \<Rightarrow> Raises a | Untracked \<Rightarrow> Untracked)"

fun eval_expr :: "expr \<Rightarrow> int outcome" where
  "eval_expr (Num n) = Returns n"
| "eval_expr (UPlus e) = unop (\<lambda>a. a) (eval_expr e)"
| "eval_expr (UMinus e) = unop uminus (eval_expr e)"
| "eval_expr (Add a b) = binop (\<lambda>x y. Returns (x + y)) (eval_expr a) (eval_expr b)"
| "eval_expr (Sub a b) = binop (\<lambda>x y. Returns (x - y)) (eval_expr a) (eval_expr b)"
| "eval_expr (Mul a b) = binop (\<lambda>x y. Returns (x * y)) (eval_expr a) (eval_expr b)"
| "eval_expr (Pow a b) = binop py_pow (eval_expr a) (eval_expr b)"

text \<open>
  \<open>py_eval\<close> is \<open>eval\<close> on strings over \<open>0-9 + - *\<close>; any other string is outside what
  \<open>parse_pos\<close> passes to \<open>eval\<close> and is \<open>Untracked\<close>.
\<close>

definition py_eval :: "string \<Rightarrow> int outcome" where
  "py_eval s =
     (if \<not> list_all cls_star s then Untracked
      else case lex [] s of
        None \<Rightarrow> Raises SyntaxError
      | Some ts \<Rightarrow>
          (case parse_expr ts of None \<Rightarrow> Raises SyntaxError | Some e \<Rightarrow> eval_expr e))"

subsection \<open>\<open>parse_pos\<close>\<close>

text \<open>
  \<open>new_Pos b v\<close> builds the \<open>Pos\<close> once \<open>int\<close> has given the base and \<open>eval\<close> the
  offset, in this order; an exception of either leaves \<open>parse_pos\<close> as it is.
\<close>

definition new_Pos :: "int outcome \<Rightarrow> int outcome \<Rightarrow> Pos outcome" where
  "new_Pos b v =
     (case b of
        Raises e \<Rightarrow> Raises e
      | Untracked \<Rightarrow> Untracked
      | Returns i \<Rightarrow>
          (case v of Returns x \<Rightarrow> Returns \<lparr>pos = i, tpos = x\<rparr>
           | Raises e \<Rightarrow> Raises e
           | Untracked \<Rightarrow> Untracked))"

definition parse_pos :: "string \<Rightarrow> Pos outcome" where
  "parse_pos posstr =
     (if isdigit posstr then new_Pos (py_int posstr) (Returns 0)
      else case match_digits_signed posstr of
        Some (g1, g2) \<Rightarrow> new_Pos (py_int g1) (py_eval g2)
      | None \<Rightarrow>
         (case match_star_signed posstr of
            Some g \<Rightarrow>
              new_Pos (Returns (if hd g = CHR ''-'' then 1 else - 1))
                (py_eval (if hd g = CHR ''*'' then tl g else g))
          | None \<Rightarrow> Raises (InvalidInputError (''invalid_position_string_'' @ posstr))))"

text \<open>
  The position grammar in the words of the specification, to compare \<open>parse_pos\<close> with:
  a token is all digits, or digits followed by a signed integer, or one of \<open>* + -\<close>
  followed by digits.
\<close>

definition all_digits :: "string \<Rightarrow> bool" where
  "all_digits s = (s \<noteq> [] \<and> list_all is_digit s)"

definition spec_position_shape :: "string \<Rightarrow> bool" where
  "spec_position_shape s =
     (all_digits s
      \<or> (let d = takeWhile is_digit s; r = dropWhile is_digit s
         in d \<noteq> [] \<and> r \<noteq> [] \<and> (hd r = CHR ''+'' \<or> hd r = CHR ''-'') \<and> all_digits (tl r))
      \<or> (s \<noteq> [] \<and> (hd s = CHR ''*'' \<or> hd s = CHR ''+'' \<or> hd s = CHR ''-'')
           \<and> all_digits (tl s)))"

section \<open>Region annotations\<close>

text \<open>
  An attribute that the code tests with \<open>hasattr\<close> or against \<open>None\<close> is an \<open>option\<close>; a
  field that two classes name alike carries a prefix here. \<open>then_do\<close> runs the next step
  on a value and passes an exception on.
\<close>

definition then_do :: "'a outcome \<Rightarrow> ('a \<Rightarrow> 'b outcome) \<Rightarrow> 'b outcome" where
  "then_do x f = (case x of Returns a \<Rightarrow> f a | Raises e \<Rightarrow> Raises e | Untracked \<Rightarrow> Untracked)"

text \<open>
  \<open>fmt_d\<close> is \<open>'%d' % x\<close>, a \<open>TypeError\<close> on \<open>None\<close>; \<open>fmt_s\<close> is \<open>'%s' % x\<close>, the text
  \<open>None\<close> on \<open>None\<close>; \<open>truthy\<close> is the truth value of a string that may be \<open>None\<close>;
  \<open>join\<close> is \<open>sep.join(xs)\<close>; \<open>append_inf\<close> is the function of that name.
\<close>

definition fmt_d :: "int option \<Rightarrow> string outcome" where
  "fmt_d x = (case x of None \<Rightarrow> Raises TypeError | Some i \<Rightarrow> Returns (str_int i))"

definition fmt_s :: "string option \<Rightarrow> string" where
  "fmt_s x = (case x of None \<Rightarrow> ''None'' | Some s \<Rightarrow> s)"

definition truthy :: "string option \<Rightarrow> bool" where
  "truthy x = (case x of None \<Rightarrow> False | Some s \<Rightarrow> s \<noteq> [])"

fun join :: "string \<Rightarrow> string list \<Rightarrow> string" where
  "join sep [] = []"
| "join sep [x] = x"
| "join sep (x # y # ys) = x @ sep @ join sep (y # ys)"

definition append_inf :: "string \<Rightarrow> string \<Rightarrow> string" where
  "append_inf f a = (if f \<noteq> [] then f @ '';'' @ a else a)"

text \<open>
  Modelled from the spec: the class of transcripts is not among the sources. These are
  the attributes that \<open>record.py\<close> reads of a transcript (\<open>gene_name\<close>, \<open>gene_dbxref\<close>,
  \<open>aliases\<close>, \<open>source\<close>, \<open>strand\<close>, \<open>chrm\<close>, \<open>cds_beg\<close>, \<open>cds_end\<close>, as the
  specification lists them). An empty string stands for a missing \<open>gene_dbxref\<close> or
  \<open>source\<close>, which the code tests by truth value only. \<open>r1.t == r2.t\<close> is, in the words
  of the specification, that both reference the same transcript: the equality of the two
  values here.
\<close>

record Transcript =
  gene_name :: string
  gene_dbxref :: string
  aliases :: "string list"
  source :: string
  t_strand :: string
  t_chrm :: string
  t_cds_beg :: int
  t_cds_end :: int

record SpliceSite =
  ss_chrm :: string
  ss_pos :: int
  exonno :: int
  stype :: string
  nextto :: bool

definition SpliceSite_format :: "SpliceSite \<Rightarrow> string" where
  "SpliceSite_format x =
     (if nextto x then ''NextTo'' else []) @ ''Splice'' @ stype x @ ''OfExon''
       @ str_int (exonno x) @ ''_At_'' @ ss_chrm x @ '':'' @ str_int (ss_pos x)"

subsection \<open>RegIntergenicAnno\<close>

record RegIntergenicAnno =
  e5_name :: "string option"
  e5_dist :: "int option"
  e5_strand :: "string option"
  e3_name :: "string option"
  e3_dist :: "int option"
  e3_strand :: "string option"

definition e5_stream :: "RegIntergenicAnno \<Rightarrow> string option" where
  "e5_stream a =
     (case e5_strand a of None \<Rightarrow> None
      | Some s \<Rightarrow> if s = ''+'' then Some ''downstream'' else Some ''upstream'')"

definition e3_stream :: "RegIntergenicAnno \<Rightarrow> string option" where
  "e3_stream a =
     (case e3_strand a of None \<Rightarrow> None
      | Some s \<Rightarrow> if s = ''-'' then Some ''downstream'' else Some ''upstream'')"

text \<open>
  \<open>format_group d\<close> is \<open>locale.format('%d', d, grouping=False)\<close>. With \<open>grouping=False\<close>
  the library (it has \<open>locale.format\<close> up to Python 3.11) formats with \<open>'%d' % d\<close> and
  inserts no separator, whatever the locale.
\<close>

definition format_group :: "int option \<Rightarrow> string outcome" where
  "format_group d = fmt_d d"

text \<open>
  \<open>RegIntergenicAnno.format0\<close>: the four arguments of the format are evaluated left to right.
\<close>

definition RegIntergenicAnno_format0 :: "RegIntergenicAnno \<Rightarrow> string outcome" where
  "RegIntergenicAnno_format0 a =
     then_do
       (if e5_strand a = None then then_do (format_group (e5_dist a)) (\<lambda>g. Returns (g @ ''_bp''))
        else then_do (format_group (e5_dist a))
               (\<lambda>g. Returns (g @ ''_bp_'' @ fmt_s (e5_stream a))))
       (\<lambda>x5.
     then_do
       (if e3_strand a = None then then_do (format_group (e3_dist a)) (\<lambda>g. Returns (g @ ''_bp''))
        else then_do (format_group (e3_dist a))
               (\<lambda>g. Returns (g @ ''_bp_'' @ fmt_s (e3_stream a))))
       (\<lambda>x3.
     Returns (''intergenic_between_'' @ fmt_s (e5_name a) @ ''('' @ x5 @ '')_and_''
                @ fmt_s (e3_name a) @ ''('' @ x3 @ '')'')))"

definition RegIntergenicAnno_format :: "RegIntergenicAnno \<Rightarrow> string outcome" where
  "RegIntergenicAnno_format a =
     then_do (RegIntergenicAnno_format0 a) (\<lambda>f. Returns (''inside_['' @ f @ '']''))"

subsection \<open>RegAnno: a single site\<close>

record RegAnno =
  exonic :: bool
  exon :: "int option"
  cds :: bool
  UTR :: "string option"
  intronic :: bool
  intron_exon1 :: "int option"
  intron_exon2 :: "int option"
  cds_beg :: "int option"
  cds_end :: "int option"
  intergenic :: "RegIntergenicAnno option"
  reg_t :: "Transcript option"
  splice :: "SpliceSite option"
  tss :: "int option"
  tes :: "int option"

definition genic :: "RegAnno \<Rightarrow> bool" where
  "genic x = (intergenic x = None)"

definition RegAnno_csqn :: "RegAnno \<Rightarrow> string" where
  "RegAnno_csqn x =
     (if intronic x then ''Intronic''
      else if truthy (UTR x) then fmt_s (UTR x) @ ''-UTR''
      else if intergenic x \<noteq> None then ''Intergenic''
      else ''Unclassified'')"

definition RegAnno_format0 :: "RegAnno \<Rightarrow> bool \<Rightarrow> string outcome" where
  "RegAnno_format0 x with_name =
     (case intergenic x of
        Some g \<Rightarrow> RegIntergenicAnno_format0 g
      | None \<Rightarrow>
          (let f1 = (if truthy (UTR x) then append_inf [] (fmt_s (UTR x) @ ''-UTR'') else [])
           in then_do
                (if intronic x then
                   then_do (fmt_d (intron_exon1 x)) (\<lambda>i1.
                   then_do (fmt_d (intron_exon2 x)) (\<lambda>i2.
                   Returns (append_inf f1 (''intron_between_exon_'' @ i1 @ ''_and_'' @ i2))))
                 else if exonic x then
                   (if cds x then
                      then_do (fmt_d (exon x)) (\<lambda>i. Returns (append_inf f1 (''cds_in_exon_'' @ i)))
                    else
                      then_do (fmt_d (exon x))
                        (\<lambda>i. Returns (append_inf f1 (''noncoding_exon_'' @ i))))
                 else Returns f1)
                (\<lambda>f2.
                   if with_name then
                     (case reg_t x of None \<Rightarrow> Raises AttributeError
                      | Some tr \<Rightarrow> Returns (append_inf f2 (gene_name tr)))
                   else Returns f2)))"

definition RegAnno_format :: "RegAnno \<Rightarrow> bool \<Rightarrow> string outcome" where
  "RegAnno_format x with_name =
     then_do (RegAnno_format0 x with_name) (\<lambda>f. Returns (''inside_['' @ f @ '']''))"

text \<open>
  \<open>same_region\<close>: both descriptions are formatted, left to right, before they are compared;
  \<open>r1.t == r2.t\<close> is the equality of the two transcripts.
\<close>

definition same_region :: "RegAnno \<Rightarrow> RegAnno \<Rightarrow> bool outcome" where
  "same_region r1 r2 =
     then_do (RegAnno_format r1 False) (\<lambda>f1.
     then_do (RegAnno_format r2 False) (\<lambda>f2.
     Returns (f1 = f2 \<and> (reg_t r1 = None \<or> reg_t r2 = None \<or> reg_t r1 = reg_t r2))))"

subsection \<open>RegCDSAnno and RegSpanAnno\<close>

record RegCDSAnno =
  exons :: "int list"
  cds_t :: Transcript

definition RegCDSAnno_format0 :: "RegCDSAnno \<Rightarrow> string" where
  "RegCDSAnno_format0 x =
     (if length (exons x) = 1 then append_inf [] (''cds_in_exon_'' @ str_int (hd (exons x)))
      else append_inf [] (''cds_in_exons_['' @ join '','' (map str_int (exons x)) @ '']''))"

text \<open>
  Modelled from the spec: the class of the object attached to a span as \<open>intergenic\<close>
  is not among the sources; \<open>csqn\<close> reads its list \<open>spanning\<close> only (the spanning genes
  of the specification). A list attribute that the code guards with \<open>hasattr\<close> and then
  tests for length or truth is the empty list when absent, and \<open>cross_start\<close>,
  \<open>cross_end\<close> are false when absent: the code does the same in both cases. Genes are
  given by their names.
\<close>

record IntergenicSpan =
  ig_spanning :: "string list"

record RegSpanAnno =
  b1 :: RegAnno
  b2 :: RegAnno
  spanning :: "string list"
  span_intergenic :: "IntergenicSpan option"
  splice_donors :: "(int \<times> string \<times> int) list"
  splice_acceptors :: "(int \<times> string \<times> int) list"
  splice_both :: "int list"
  cross_start :: bool
  cross_end :: bool
  span_t :: "Transcript option"

definition in_UTR :: "RegSpanAnno \<Rightarrow> bool" where
  "in_UTR x = (truthy (UTR (b1 x)) \<and> truthy (UTR (b2 x)) \<and> UTR (b1 x) = UTR (b2 x))"

definition in_exon :: "RegSpanAnno \<Rightarrow> bool" where
  "in_exon x = (exonic (b1 x) \<and> exonic (b2 x) \<and> exon (b1 x) = exon (b2 x))"

definition entirely_in_cds :: "RegSpanAnno \<Rightarrow> bool" where
  "entirely_in_cds x = (cds (b1 x) \<and> cds (b2 x) \<and> exon (b1 x) = exon (b2 x))"

definition in_intron :: "RegSpanAnno \<Rightarrow> bool" where
  "in_intron x =
     (intronic (b1 x) \<and> intronic (b2 x)
      \<and> intron_exon1 (b1 x) = intron_exon1 (b2 x)
      \<and> intron_exon2 (b1 x) = intron_exon2 (b2 x))"

definition RegSpanAnno_csqn :: "RegSpanAnno \<Rightarrow> string" where
  "RegSpanAnno_csqn x =
     (if (case span_intergenic x of None \<Rightarrow> False | Some g \<Rightarrow> length (ig_spanning g) = 0)
      then ''Intergenic''
      else if length (splice_donors x) > 0 then ''SpliceDonor''
      else if length (splice_acceptors x) > 0 then ''SpliceAcceptor''
      else if in_intron x then ''Intronic''
      else if in_UTR x then fmt_s (UTR (b1 x)) @ ''-UTR''
      else ''Unclassified'')"

section \<open>Record: one annotated output row\<close>

text \<open>
  \<open>reg\<close> is the string \<open>'.'\<close> until a region annotation is attached (\<open>NoReg\<close>), then an
  object of one of the annotation classes.
\<close>

datatype region = NoReg | Site RegAnno | Span RegSpanAnno | Codon RegCDSAnno

record Record =
  tname :: string
  chrm :: string
  gene :: string
  strand :: string
  reg :: region
  info :: string
  is_var :: bool
  csqn :: "string list"

definition prepend_info :: "Record \<Rightarrow> string \<Rightarrow> Record" where
  "prepend_info r app =
     (if info r \<noteq> [] \<and> info r \<noteq> ''.'' then r\<lparr>info := app @ '';'' @ info r\<rparr>
      else r\<lparr>info := app\<rparr>)"

definition append_info :: "Record \<Rightarrow> string \<Rightarrow> Record" where
  "append_info r app =
     (if info r \<noteq> [] \<and> info r \<noteq> ''.'' then r\<lparr>info := info r @ '';'' @ app\<rparr>
      else r\<lparr>info := app\<rparr>)"

definition csqn_append :: "Record \<Rightarrow> string \<Rightarrow> Record" where
  "csqn_append r tag = r\<lparr>csqn := csqn r @ [tag]\<rparr>"

subsection \<open>\<open>set_splice\<close>\<close>

text \<open>
  The method mutates the record and returns \<open>expt\<close>; here every step takes the pair of
  \<open>expt\<close> and the record and returns the new pair. \<open>action\<close> below is the argument after
  \<open>if action: action = '_'+action\<close>.
\<close>

definition splice_site_infos :: "string \<Rightarrow> string \<Rightarrow> (int \<times> string \<times> int) list \<Rightarrow> Record \<Rightarrow> Record" where
  "splice_site_infos kind action sites r =
     foldl (\<lambda>r' (exind, ch, spos).
              append_info r' (''C2='' @ kind @ ''_splice_site_on_exon_'' @ str_int exind
                               @ ''_at_'' @ ch @ '':'' @ str_int spos @ action))
           r sites"

definition span_donors :: "RegSpanAnno \<Rightarrow> string \<Rightarrow> string \<Rightarrow> bool \<times> Record \<Rightarrow> bool \<times> Record" where
  "span_donors x action csqn_action st =
     (let (expt, r) = st;
          r1 = (if length (splice_donors x) > 0 then csqn_append r (''SpliceDonor'' @ csqn_action)
                else r)
      in (expt \<or> splice_donors x \<noteq> [], splice_site_infos ''donor'' action (splice_donors x) r1))"

definition span_acceptors :: "RegSpanAnno \<Rightarrow> string \<Rightarrow> string \<Rightarrow> bool \<times> Record \<Rightarrow> bool \<times> Record" where
  "span_acceptors x action csqn_action st =
     (let (expt, r) = st;
          r1 = (if length (splice_acceptors x) > 0
                then csqn_append r (''SpliceAcceptor'' @ csqn_action) else r)
      in (expt \<or> splice_acceptors x \<noteq> [],
          splice_site_infos ''acceptor'' action (splice_acceptors x) r1))"

definition span_both :: "RegSpanAnno \<Rightarrow> string \<Rightarrow> bool \<times> Record \<Rightarrow> bool \<times> Record" where
  "span_both x action st =
     (let (expt, r) = st
      in if splice_both x \<noteq> [] then
           (True, append_info r (''whole_exon_['' @ join '','' (map str_int (splice_both x))
                                   @ '']'' @ action))
         else (expt, r))"

text \<open>
  \<open>cross_start\<close> and \<open>cross_end\<close> read \<open>self.reg.t\<close>; without that attribute Python raises
  \<open>AttributeError\<close>.
\<close>

definition span_cross_start :: "RegSpanAnno \<Rightarrow> string \<Rightarrow> string \<Rightarrow> bool \<times> Record \<Rightarrow> (bool \<times> Record) outcome" where
  "span_cross_start x action csqn_action st =
     (let (expt, r) = st
      in if cross_start x then
           (case span_t x of
              None \<Rightarrow> Raises AttributeError
            | Some tr \<Rightarrow>
                if t_strand tr = ''+'' then
                  Returns (True, append_info (csqn_append r (''CdsStart'' @ csqn_action))
                     (''cds_start_at_'' @ t_chrm tr @ '':'' @ str_int (t_cds_beg tr) @ action))
                else
                  Returns (True, append_info (csqn_append r (''CdsStop'' @ csqn_action))
                     (''cds_stop_at_'' @ t_chrm tr @ '':'' @ str_int (t_cds_beg tr) @ action)))
         else Returns (expt, r))"

definition span_cross_end :: "RegSpanAnno \<Rightarrow> string \<Rightarrow> string \<Rightarrow> bool \<times> Record \<Rightarrow> (bool \<times> Record) outcome" where
  "span_cross_end x action csqn_action st =
     (let (expt, r) = st
      in if cross_end x then
           (case span_t x of
              None \<Rightarrow> Raises AttributeError
            | Some tr \<Rightarrow>
                if t_strand tr = ''+'' then
                  Returns (True, append_info (csqn_append r (''CdsStop'' @ csqn_action))
                     (''cds_end_at_'' @ t_chrm tr @ '':'' @ str_int (t_cds_end tr) @ action))
                else
                  Returns (True, append_info (csqn_append r (''CdsStart'' @ csqn_action))
                     (''cds_start_at_'' @ t_chrm tr @ '':'' @ str_int (t_cds_end tr) @ action)))
         else Returns (expt, r))"

definition set_splice_span :: "RegSpanAnno \<Rightarrow> string \<Rightarrow> string \<Rightarrow> Record \<Rightarrow> (bool \<times> Record) outcome" where
  "set_splice_span x action csqn_action r =
     then_do
       (span_cross_start x action csqn_action
          (span_both x action
             (span_acceptors x action csqn_action
                (span_donors x action csqn_action (False, r)))))
       (span_cross_end x action csqn_action)"

text \<open>
  The single-site branch. \<open>site_at\<close> is the common shape of the four steps that write a
  coordinate with \<open>self.reg.t.chrm\<close>.
\<close>

definition site_splice :: "RegAnno \<Rightarrow> string \<Rightarrow> bool \<times> Record \<Rightarrow> bool \<times> Record" where
  "site_splice x csqn_action st =
     (let (expt, r) = st
      in case splice x of
           None \<Rightarrow> (expt, r)
         | Some sp \<Rightarrow>
             (if \<not> nextto sp \<and> csqn_action \<noteq> ''Synonymous'' then
                (True, append_info (csqn_append r (''Splice'' @ stype sp @ csqn_action))
                         (''C2='' @ SpliceSite_format sp))
              else (expt, append_info r (''C2='' @ SpliceSite_format sp))))"

definition site_at :: "RegAnno \<Rightarrow> string \<Rightarrow> int option \<Rightarrow> string option \<Rightarrow> string \<Rightarrow> bool \<times> Record \<Rightarrow> (bool \<times> Record) outcome" where
  "site_at x csqn_action coord tag label st =
     (let (expt, r) = st
      in case coord of
           None \<Rightarrow> Returns (expt, r)
         | Some c \<Rightarrow>
             (let expt' = (expt \<or> csqn_action \<noteq> ''Synonymous'');
                  r1 = (case tag of None \<Rightarrow> r | Some g \<Rightarrow> csqn_append r (g @ csqn_action))
              in case reg_t x of
                   None \<Rightarrow> Raises AttributeError
                 | Some tr \<Rightarrow>
                     Returns (expt', append_info r1 (label @ t_chrm tr @ '':'' @ str_int c))))"

definition set_splice_site :: "RegAnno \<Rightarrow> string \<Rightarrow> Record \<Rightarrow> (bool \<times> Record) outcome" where
  "set_splice_site x csqn_action r =
     then_do (site_at x csqn_action (cds_beg x) (Some ''CdsStart'') ''C2=cds_start_at_''
                (site_splice x csqn_action (False, r)))
       (\<lambda>s1. then_do (site_at x csqn_action (cds_end x) (Some ''CdsStop'') ''C2=cds_end_at_'' s1)
       (\<lambda>s2. then_do (site_at x csqn_action (tss x) None ''transcription_start_at_'' s2)
       (\<lambda>s3. site_at x csqn_action (tes x) None ''transcription_end_at_'' s3)))"

text \<open>
  \<open>Record.set_splice\<close>. A \<open>reg\<close> that is neither a span nor a single site has no
  attribute \<open>cds_beg\<close>.
\<close>

definition set_splice :: "Record \<Rightarrow> string \<Rightarrow> string \<Rightarrow> (bool \<times> Record) outcome" where
  "set_splice r action csqn_action =
     (let action' = (if action \<noteq> [] then ''_'' @ action else action)
      in case reg r of
           Span x \<Rightarrow> set_splice_span x action' csqn_action r
         | Site x \<Rightarrow> set_splice_site x csqn_action r
         | _ \<Rightarrow> Raises AttributeError)"

definition set_csqn_byreg :: "Record \<Rightarrow> string \<Rightarrow> Record outcome" where
  "set_csqn_byreg r action =
     (case reg r of
        Span x \<Rightarrow> Returns (csqn_append r (RegSpanAnno_csqn x @ action))
      | Site x \<Rightarrow> Returns (csqn_append r (RegAnno_csqn x @ action))
      | _ \<Rightarrow> Raises AttributeError)"

subsection \<open>\<open>formats\<close>: what it writes to \<open>info\<close>\<close>

text \<open>
  \<open>formats\<close> first puts the consequence in front of \<open>info\<close> (\<open>formats_csqn\<close>), then appends
  the transcript's references (\<open>formats_transcript\<close>), then fills the row template, whose
  last column is \<open>info\<close>. \<open>formats_info\<close> is the record after the first two steps; the
  other columns of the row are not part of this development. \<open>len(set(csqn))\<close> is the
  length of the list without duplicates.
\<close>

definition formats_csqn :: "Record \<Rightarrow> Record" where
  "formats_csqn r =
     (if is_var r then
        (if length (csqn r) = 0 then prepend_info r ''CSQN=Unclassified''
         else if length (remdups (csqn r)) = 1 then prepend_info r (''CSQN='' @ hd (csqn r))
         else prepend_info r (''CSQN=Multi:'' @ join '','' (csqn r)))
      else r)"

definition reg_transcript :: "region \<Rightarrow> Transcript option" where
  "reg_transcript g =
     (case g of NoReg \<Rightarrow> None | Site x \<Rightarrow> reg_t x | Span x \<Rightarrow> span_t x
      | Codon x \<Rightarrow> Some (cds_t x))"

definition formats_transcript :: "Record \<Rightarrow> Record" where
  "formats_transcript r =
     (case reg_transcript (reg r) of
        None \<Rightarrow> r
      | Some tr \<Rightarrow>
          (let r1 = (if gene_dbxref tr \<noteq> [] then append_info r (''dbxref='' @ gene_dbxref tr)
                     else r);
               r2 = (if aliases tr \<noteq> [] then append_info r1 (''aliases='' @ join '','' (aliases tr))
                     else r1)
           in if source tr \<noteq> [] then append_info r2 (''source='' @ source tr) else r2))"

definition formats_info :: "Record \<Rightarrow> Record" where
  "formats_info r = formats_transcript (formats_csqn r)"

section \<open>Query regions\<close>

text \<open>
  Modelled from the spec: \<open>err_warn\<close> is a function of \<open>err.py\<close>, which is not among
  the sources; by the specification it emits a warning, not an error, so here it adds
  its message to the list of warnings, in the order of the calls, and returns.
  \<open>reflen\<close> (of \<open>faidx.py\<close>) gives the length of the reference that the token names; it
  is a parameter. \<open>beg\<close> and \<open>end\<close> (\<open>q_beg\<close>, \<open>q_end\<close>) are integers when \<open>normalize_reg\<close> is called. The
  two messages for a negative endpoint are passed without arguments for their \<open>%d\<close>.
\<close>

record 'k Query =
  q_beg :: int
  q_end :: int
  tok :: 'k

definition normalize_reg :: "('k \<Rightarrow> int) \<Rightarrow> 'k Query \<Rightarrow> 'k Query \<times> string list" where
  "normalize_reg reflen q =
     (let (q1, w1) =
            (if q_beg q > reflen (tok q) then
               (q\<lparr>q_beg := reflen (tok q)\<rparr>,
                [''region beg '' @ str_int (q_beg q) @ '' greater than chromosome length ''
                   @ str_int (reflen (tok q)) @ '', truncated.''])
             else (q, []));
          (q2, w2) =
            (if q_end q1 > reflen (tok q1) then
               (q1\<lparr>q_end := reflen (tok q1)\<rparr>,
                w1 @ [''region end '' @ str_int (q_end q1) @ '' greater than chromosome length ''
                        @ str_int (reflen (tok q1)) @ '', truncated.''])
             else (q1, w1));
          (q3, w3) =
            (if q_beg q2 < 0 then
               (q2\<lparr>q_beg := 0\<rparr>, w2 @ [''region beg %d negative, truncated to 0.''])
             else (q2, w2));
          (q4, w4) =
            (if q_end q3 < 0 then
               (q3\<lparr>q_end := 0\<rparr>, w3 @ [''region end %d negative, truncated to 0.''])
             else (q3, w3))
      in (q4, w4))"

text \<open>
  The order of the checks in the words of the specification, to compare \<open>normalize_reg\<close>
  with: the negative endpoints are brought to 0 first, the upper bound is checked after.
\<close>

definition spec_normalize_reg :: "('k \<Rightarrow> int) \<Rightarrow> 'k Query \<Rightarrow> 'k Query \<times> string list" where
  "spec_normalize_reg reflen q =
     (let (q1, w1) =
            (if q_beg q < 0 then
               (q\<lparr>q_beg := 0\<rparr>, [''region beg %d negative, truncated to 0.''])
             else (q, []));
          (q2, w2) =
            (if q_end q1 < 0 then
               (q1\<lparr>q_end := 0\<rparr>, w1 @ [''region end %d negative, truncated to 0.''])
             else (q1, w1));
          (q3, w3) =
            (if q_beg q2 > reflen (tok q2) then
               (q2\<lparr>q_beg := reflen (tok q2)\<rparr>,
                w2 @ [''region beg '' @ str_int (q_beg q2) @ '' greater than chromosome length ''
                        @ str_int (reflen (tok q2)) @ '', truncated.''])
             else (q2, w2));
          (q4, w4) =
            (if q_end q3 > reflen (tok q3) then
               (q3\<lparr>q_end := reflen (tok q3)\<rparr>,
                w3 @ [''region end '' @ str_int (q_end q3) @ '' greater than chromosome length ''
                        @ str_int (reflen (tok q3)) @ '', truncated.''])
             else (q3, w3))
      in (q4, w4))"

section \<open>Lemmas\<close>

subsection \<open>Decimal text, lexer and patterns\<close>

lemma is_digit_digit_char: "d < 10 \<Longrightarrow> is_digit (digit_char d)"
  by (simp add: is_digit_def digit_char_def)

lemma digit_val_digit_char: "d < 10 \<Longrightarrow> digit_val (digit_char d) = d"
  by (simp add: digit_val_def digit_char_def)

lemma digit_char_zero: "d < 10 \<Longrightarrow> digit_char d = CHR ''0'' \<Longrightarrow> d = 0"
proof -
  assume d: "d < 10" and e: "digit_char d = CHR ''0''"
  from e have "digit_val (digit_char d) = digit_val (CHR ''0'')" by simp
  with d show "d = 0" by (simp add: digit_val_digit_char) (simp add: digit_val_def)
qed

lemma str_nat_digits: "list_all is_digit (str_nat n)"
  by (induction n rule: str_nat.induct) (subst str_nat.simps, simp add: is_digit_digit_char)

lemma str_nat_nonempty: "str_nat n \<noteq> []"
  by (subst str_nat.simps) simp

lemma is_digit_unicode: "is_digit c \<Longrightarrow> is_unicode_digit c"
  by (simp add: is_unicode_digit_def)

lemma isdigit_ascii: "s \<noteq> [] \<Longrightarrow> list_all is_digit s \<Longrightarrow> isdigit s"
  by (auto simp: isdigit_def list_all_iff is_digit_unicode)

lemma isdigit_str_nat: "isdigit (str_nat n)"
  by (simp add: isdigit_ascii str_nat_digits str_nat_nonempty)

lemma int_of_digits_snoc:
  "int_of_digits (s @ [c]) = 10 * int_of_digits s + int (digit_val c)"
  by (simp add: int_of_digits_def)

lemma int_of_digits_str_nat: "int_of_digits (str_nat n) = int n"
proof (induction n rule: str_nat.induct)
  case (1 n)
  show ?case
  proof (cases "n < 10")
    case True
    then show ?thesis
      by (subst str_nat.simps) (simp add: int_of_digits_def digit_val_digit_char)
  next
    case False
    then have "int_of_digits (str_nat n) = 10 * int (n div 10) + int (n mod 10)"
      using 1 by (subst str_nat.simps) (simp add: int_of_digits_snoc digit_val_digit_char)
    then show ?thesis by (simp add: zdiv_int zmod_int)
  qed
qed

lemma py_int_str_nat: "py_int (str_nat n) = Returns (int n)"
  by (simp add: py_int_def str_nat_digits str_nat_nonempty int_of_digits_str_nat)

lemma hd_str_nat_zero: "hd (str_nat n) = CHR ''0'' \<Longrightarrow> n = 0"
proof (induction n rule: str_nat.induct)
  case (1 n)
  show ?case
  proof (cases "n < 10")
    case True
    with 1(2) show ?thesis
      by (subst (asm) str_nat.simps) (simp add: digit_char_zero)
  next
    case False
    with 1(2) have "hd (str_nat (n div 10)) = CHR ''0''"
      by (subst (asm) str_nat.simps) (simp add: str_nat_nonempty)
    with 1(1) False have "n div 10 = 0" by simp
    with False show ?thesis by simp
  qed
qed

lemma number_token_str_nat: "number_token (str_nat n) = Some [NUM (int n)]"
proof (cases "n = 0")
  case True
  then show ?thesis
    by (simp add: number_token_def str_nat.simps digit_char_def int_of_digits_def digit_val_def)
next
  case False
  then have "hd (str_nat n) \<noteq> CHR ''0''" using hd_str_nat_zero by blast
  then show ?thesis
    by (simp add: number_token_def str_nat_nonempty int_of_digits_str_nat)
qed

lemma lex_digits: "list_all is_digit ds \<Longrightarrow> lex run ds = number_token (run @ ds)"
  by (induction ds arbitrary: run) simp_all

lemma lex_sign_number:
  "lex [] (CHR ''+'' # str_nat n) = Some [PLUS, NUM (int n)]"
  "lex [] (CHR ''-'' # str_nat n) = Some [MINUS, NUM (int n)]"
  by (simp_all add: is_digit_def emit_def number_token_def lex_digits str_nat_digits
      number_token_str_nat [unfolded number_token_def])

lemma cls_star_digit: "is_digit c \<Longrightarrow> cls_star c"
  by (simp add: cls_star_def cls_sign_def)

lemma py_eval_plus: "py_eval (CHR ''+'' # str_nat n) = Returns (int n)"
proof -
  have "list_all cls_star (str_nat n)"
    using str_nat_digits [of n] by (simp add: list_all_iff cls_star_digit)
  then show ?thesis
    by (simp add: py_eval_def lex_sign_number parse_expr_def parse_term_def
        parse_term_rest.simps parse_arith_rest.simps unop_def cls_star_def cls_sign_def
        del: lex.simps)
qed

lemma py_eval_minus: "py_eval (CHR ''-'' # str_nat n) = Returns (- int n)"
proof -
  have "list_all cls_star (str_nat n)"
    using str_nat_digits [of n] by (simp add: list_all_iff cls_star_digit)
  then show ?thesis
    by (simp add: py_eval_def lex_sign_number parse_expr_def parse_term_def
        parse_term_rest.simps parse_arith_rest.simps unop_def cls_star_def cls_sign_def
        del: lex.simps)
qed

lemma try_split_first:
  "0 < k \<Longrightarrow> takeWhile cls_sign (drop k s) \<noteq> [] \<Longrightarrow>
   try_split k s = Some (take k s, takeWhile cls_sign (drop k s))"
  by (cases k) (simp_all add: Let_def)

lemma try_split_Some: "try_split k s = Some g \<Longrightarrow> 0 < k"
  by (cases k) simp_all

lemma not_digit_sign: "\<not> is_digit (CHR ''+'')" "\<not> is_digit (CHR ''-'')"
  by (simp_all add: is_digit_def)

lemma match_digits_signed_render:
  assumes sg: "sg = CHR ''+'' \<or> sg = CHR ''-''"
  shows "match_digits_signed (str_nat b @ sg # str_nat t) = Some (str_nat b, sg # str_nat t)"
proof -
  let ?d = "str_nat b" and ?r = "sg # str_nat t"
  have nd: "\<not> is_digit sg" using sg not_digit_sign by auto
  have d: "\<forall>c\<in>set ?d. is_digit c" using str_nat_digits [of b] by (simp add: list_all_iff)
  have tw: "takeWhile is_digit (?d @ ?r) = ?d"
    using d nd by (simp add: takeWhile_append2)
  have "\<forall>c\<in>set ?r. cls_sign c"
    using sg str_nat_digits [of t] by (auto simp: list_all_iff cls_sign_def)
  then have g2: "takeWhile cls_sign (drop (length ?d) (?d @ ?r)) = ?r"
    by (simp del: takeWhile.simps add: takeWhile_eq_all_conv)
  have "try_split (length ?d) (?d @ ?r) = Some (take (length ?d) (?d @ ?r), ?r)"
    using try_split_first [of "length ?d" "?d @ ?r"] g2 str_nat_nonempty [of b] by simp
  then show ?thesis by (simp add: match_digits_signed_def tw)
qed

lemma not_isdigit_render:
  "sg = CHR ''+'' \<or> sg = CHR ''-'' \<Longrightarrow> \<not> isdigit (str_nat b @ sg # str_nat t)"
  by (auto simp: isdigit_def is_unicode_digit_def is_digit_def)

lemma unop_not_invalid: "x \<noteq> Raises (InvalidInputError m) \<Longrightarrow> unop f x \<noteq> Raises (InvalidInputError m)"
  by (auto simp: unop_def split: outcome.splits)

lemma binop_not_invalid:
  "(\<And>a b. f a b \<noteq> Raises (InvalidInputError m)) \<Longrightarrow> x \<noteq> Raises (InvalidInputError m) \<Longrightarrow>
   y \<noteq> Raises (InvalidInputError m) \<Longrightarrow> binop f x y \<noteq> Raises (InvalidInputError m)"
  by (auto simp: binop_def split: outcome.splits)

lemma eval_expr_not_invalid: "eval_expr e \<noteq> Raises (InvalidInputError m)"
  by (induction e) (simp_all add: unop_not_invalid binop_not_invalid py_pow_def)

lemma py_eval_not_invalid: "py_eval s \<noteq> Raises (InvalidInputError m)"
  by (simp add: py_eval_def eval_expr_not_invalid split: option.splits)

lemma py_int_not_invalid: "py_int s \<noteq> Raises (InvalidInputError m)"
  by (simp add: py_int_def)

lemma new_Pos_not_invalid:
  "b \<noteq> Raises (InvalidInputError m) \<Longrightarrow> v \<noteq> Raises (InvalidInputError m) \<Longrightarrow>
   new_Pos b v \<noteq> Raises (InvalidInputError m)"
  by (auto simp: new_Pos_def split: outcome.splits)

lemma match_star_signed_None: "match_star_signed s = None \<longleftrightarrow> s = [] \<or> \<not> cls_star (hd s)"
  by (cases s) (simp_all add: match_star_signed_def Let_def)

lemma no_star_no_digits:
  assumes "s = [] \<or> \<not> cls_star (hd s)"
  shows "match_digits_signed s = None"
proof -
  have "takeWhile is_digit s = []"
    using assms by (cases s) (auto simp: cls_star_digit)
  then show ?thesis by (simp add: match_digits_signed_def)
qed

text \<open>
  When \<open>parse_pos\<close> raises \<open>InvalidInputError\<close>: on a token that \<open>isdigit\<close> refuses and
  that is empty or starts with a character other than \<open>0-9 + - *\<close>; the message carries
  the token.
\<close>

lemma parse_pos_invalid_iff:
  "parse_pos s = Raises (InvalidInputError m) \<longleftrightarrow>
     \<not> isdigit s \<and> (s = [] \<or> \<not> cls_star (hd s)) \<and> m = ''invalid_position_string_'' @ s"
proof (cases "isdigit s")
  case True
  then show ?thesis
    by (simp add: parse_pos_def new_Pos_not_invalid py_int_not_invalid)
next
  case nd: False
  show ?thesis
  proof (cases "s = [] \<or> \<not> cls_star (hd s)")
    case True
    then show ?thesis
      using nd no_star_no_digits [OF True] match_star_signed_None [of s]
      by (auto simp: parse_pos_def)
  next
    case False
    then have "match_star_signed s \<noteq> None" by (simp add: match_star_signed_None)
    then show ?thesis
      using False nd
      by (auto simp: parse_pos_def new_Pos_not_invalid py_int_not_invalid py_eval_not_invalid
          split: option.splits)
  qed
qed

text \<open>The shapes of the grammar on tokens whose numbers are written without leading zeros.\<close>

lemma parse_pos_all_digits:
  "all_digits s \<Longrightarrow> parse_pos s = Returns \<lparr>pos = int_of_digits s, tpos = 0\<rparr>"
  by (simp add: all_digits_def parse_pos_def isdigit_ascii py_int_def new_Pos_def)

lemma py_eval_digits: "py_eval (str_nat n) = Returns (int n)"
proof -
  have "list_all cls_star (str_nat n)"
    using str_nat_digits [of n] by (simp add: list_all_iff cls_star_digit)
  then show ?thesis
    by (simp add: py_eval_def lex_digits str_nat_digits number_token_str_nat parse_expr_def
        parse_term_def parse_term_rest.simps parse_arith_rest.simps)
qed

lemma match_star_signed_all:
  "s \<noteq> [] \<Longrightarrow> list_all cls_star s \<Longrightarrow> match_star_signed s = Some s"
  by (simp add: match_star_signed_def Let_def list_all_iff takeWhile_eq_all_conv [THEN iffD2])

lemma parse_pos_sign_digits:
  "parse_pos (CHR ''-'' # str_nat n) = Returns \<lparr>pos = 1, tpos = - int n\<rparr>"
  "parse_pos (CHR ''+'' # str_nat n) = Returns \<lparr>pos = - 1, tpos = int n\<rparr>"
  "parse_pos (CHR ''*'' # str_nat n) = Returns \<lparr>pos = - 1, tpos = int n\<rparr>"
proof -
  have c: "list_all cls_star (str_nat n)"
    using str_nat_digits [of n] by (simp add: list_all_iff cls_star_digit)
  have nd: "\<not> isdigit (c # str_nat n)" "match_digits_signed (c # str_nat n) = None"
    if "c = CHR ''-'' \<or> c = CHR ''+'' \<or> c = CHR ''*''" for c
    using that
    by (auto simp: isdigit_def is_unicode_digit_def is_digit_def match_digits_signed_def)
  have ms: "match_star_signed (c # str_nat n) = Some (c # str_nat n)"
    if "c = CHR ''-'' \<or> c = CHR ''+'' \<or> c = CHR ''*''" for c
    using that c by (intro match_star_signed_all) (auto simp: cls_star_def cls_sign_def)
  show "parse_pos (CHR ''-'' # str_nat n) = Returns \<lparr>pos = 1, tpos = - int n\<rparr>"
    by (simp add: parse_pos_def nd ms py_eval_minus new_Pos_def)
  show "parse_pos (CHR ''+'' # str_nat n) = Returns \<lparr>pos = - 1, tpos = int n\<rparr>"
    by (simp add: parse_pos_def nd ms py_eval_plus new_Pos_def)
  show "parse_pos (CHR ''*'' # str_nat n) = Returns \<lparr>pos = - 1, tpos = int n\<rparr>"
    by (simp add: parse_pos_def nd ms py_eval_digits new_Pos_def)
qed

lemma parse_pos_examples:
  "parse_pos ''123'' = Returns \<lparr>pos = 123, tpos = 0\<rparr>"
  "parse_pos ''123+45'' = Returns \<lparr>pos = 123, tpos = 45\<rparr>"
  "parse_pos ''123-7'' = Returns \<lparr>pos = 123, tpos = - 7\<rparr>"
  "parse_pos ''*12'' = Returns \<lparr>pos = - 1, tpos = 12\<rparr>"
  "parse_pos ''-5'' = Returns \<lparr>pos = 1, tpos = - 5\<rparr>"
  "parse_pos ''abc'' = Raises (InvalidInputError ''invalid_position_string_abc'')"
  by code_simp+

subsection \<open>Records, regions and warnings\<close>

lemma info_prepend_info:
  "info (prepend_info r app) = app @ (if info r \<noteq> [] \<and> info r \<noteq> ''.'' then '';'' @ info r else [])"
  by (simp add: prepend_info_def)

lemma info_append_info:
  "info (append_info r app) = (if info r \<noteq> [] \<and> info r \<noteq> ''.'' then info r @ '';'' @ app else app)"
  by (simp add: append_info_def)

lemma append_info_keeps_prefix:
  assumes "prefix p (info r)" and "2 \<le> length p"
  shows "prefix p (info (append_info r app))"
proof -
  from assms have "2 \<le> length (info r)" using prefix_length_le by fastforce
  then have "info r \<noteq> [] \<and> info r \<noteq> ''.''" by auto
  then show ?thesis using assms(1) by (simp add: info_append_info)
qed

lemma formats_transcript_keeps_prefix:
  assumes "prefix p (info r)" and "2 \<le> length p"
  shows "prefix p (info (formats_transcript r))"
  using assms
  by (auto simp: formats_transcript_def Let_def append_info_keeps_prefix split: option.splits)

lemma csqn_prefix_append:
  assumes "\<not> prefix ''CSQN='' xs"
  shows "\<not> prefix ''CSQN='' (xs @ CHR '';'' # ys)"
proof
  assume "prefix ''CSQN='' (xs @ CHR '';'' # ys)"
  then obtain us where us: "''CSQN='' = xs @ us" and p: "prefix us (CHR '';'' # ys)"
    using assms by (auto simp: prefix_append)
  from assms us have "us \<noteq> []" by auto
  with p have "CHR '';'' \<in> set us" by (cases us) auto
  then have "CHR '';'' \<in> set ''CSQN=''" unfolding us by simp
  then show False by simp
qed

lemma append_info_no_csqn:
  assumes "\<not> prefix ''CSQN='' (info r)" and "\<not> prefix ''CSQN='' app"
  shows "\<not> prefix ''CSQN='' (info (append_info r app))"
  using assms csqn_prefix_append [of "info r" app] by (simp add: info_append_info)

lemma formats_transcript_no_csqn:
  assumes "\<not> prefix ''CSQN='' (info r)"
  shows "\<not> prefix ''CSQN='' (info (formats_transcript r))"
proof (cases "reg_transcript (reg r)")
  case None
  then show ?thesis using assms by (simp add: formats_transcript_def)
next
  case (Some tr)
  define r1 where "r1 = (if gene_dbxref tr \<noteq> [] then append_info r (''dbxref='' @ gene_dbxref tr) else r)"
  define r2 where "r2 = (if aliases tr \<noteq> [] then append_info r1 (''aliases='' @ join '','' (aliases tr)) else r1)"
  have 1: "\<not> prefix ''CSQN='' (info r1)"
    using assms by (simp add: r1_def append_info_no_csqn)
  have 2: "\<not> prefix ''CSQN='' (info r2)"
    using 1 by (simp add: r2_def append_info_no_csqn)
  have "formats_transcript r = (if source tr \<noteq> [] then append_info r2 (''source='' @ source tr) else r2)"
    by (simp add: formats_transcript_def Some r1_def r2_def)
  then show ?thesis using 2 by (simp add: append_info_no_csqn)
qed

lemma single_tag:
  assumes "set xs = {tag}"
  shows "xs \<noteq> []" and "length (remdups xs) = 1" and "hd xs = tag"
proof -
  show ne: "xs \<noteq> []" using assms by auto
  show "length (remdups xs) = 1" using assms by (simp add: length_remdups_card_conv)
  from ne have "hd xs \<in> set xs" by simp
  then show "hd xs = tag" using assms by simp
qed

lemma several_tags:
  assumes "1 < card (set xs)"
  shows "xs \<noteq> []" and "length (remdups xs) \<noteq> 1"
  using assms by (auto simp: length_remdups_card_conv)

lemma then_do_Returns: "then_do (Returns a) f = f a"
  by (simp add: then_do_def)

lemma csqn_append_info: "csqn (append_info r a) = csqn r"
  by (simp add: append_info_def)

lemma csqn_splice_site_infos: "csqn (splice_site_infos kind action sites r) = csqn r"
proof -
  have "csqn (foldl (\<lambda>r' (exind, ch, spos).
              append_info r' (''C2='' @ kind @ ''_splice_site_on_exon_'' @ str_int exind
                               @ ''_at_'' @ ch @ '':'' @ str_int spos @ action)) r sites) = csqn r"
    by (induction sites arbitrary: r) (simp_all add: csqn_append_info split: prod.splits)
  then show ?thesis by (simp add: splice_site_infos_def)
qed

lemma csqn_csqn_append: "csqn (csqn_append r tag) = csqn r @ [tag]"
  by (simp add: csqn_append_def)

lemma fmt_d_Some: "fmt_d (Some d) = Returns (str_int d)"
  by (simp add: fmt_d_def)

lemma comma_not_digit: "\<not> is_digit (CHR '','')"
  by (simp add: is_digit_def)

lemma str_nat_no_comma: "CHR '','' \<notin> set (str_nat n)"
  using str_nat_digits [of n] comma_not_digit by (auto simp: list_all_iff)

lemma str_int_no_comma: "CHR '','' \<notin> set (str_int d)"
  by (simp add: str_int_def str_nat_no_comma)

lemma digit_chars:
  "digit_char 0 = CHR ''0''" "digit_char 1 = CHR ''1''" "digit_char 2 = CHR ''2''"
  "digit_char 3 = CHR ''3''" "digit_char 4 = CHR ''4''" "digit_char 5 = CHR ''5''"
  "digit_char 6 = CHR ''6''" "digit_char 7 = CHR ''7''" "digit_char 8 = CHR ''8''"
  "digit_char 9 = CHR ''9''" "digit_char (Suc 0) = CHR ''1''"
  by code_simp+

lemma str_int_example: "str_int 1234567 = ''1234567''"
  by (simp add: str_int_def str_nat.simps digit_chars)

lemma str_int_890: "str_int 890 = ''890''"
  by (simp add: str_int_def str_nat.simps digit_chars)

section \<open>Properties\<close>

text \<open>
  C1. The grammar of position tokens has three shapes: all digits, digits followed by a
  signed integer, and one of \<open>* + -\<close> followed by digits; a token of any other shape is
  to be refused with \<open>InvalidInputError\<close>. \<open>parse_pos\<close> does not refuse \<open>"12a"\<close>, which
  has none of the three shapes: the first pattern is matched at the start of the token
  only, its first group gives back the digit \<open>2\<close> to the second, and the call returns
  base 1 with offset 2.
\<close>

theorem parse_pos_unanchored_match:
  "\<not> spec_position_shape ''12a'' \<and>
   parse_pos ''12a'' = Returns \<lparr>pos = 1, tpos = 2\<rparr> \<and>
   parse_pos ''12a'' \<noteq> Raises (InvalidInputError ''invalid_position_string_12a'')"
proof (intro conjI)
  show "\<not> spec_position_shape ''12a''" by code_simp
  show p: "parse_pos ''12a'' = Returns \<lparr>pos = 1, tpos = 2\<rparr>" by code_simp
  show "parse_pos ''12a'' \<noteq> Raises (InvalidInputError ''invalid_position_string_12a'')"
    unfolding p by simp
qed

text \<open>
  C2 (as amended). For every position with base at least 0, whatever its offset, parsing
  the text that \<open>__repr__\<close> renders gives the position back.
\<close>

theorem repr_parse_pos_roundtrip:
  assumes "0 \<le> pos p"
  shows "parse_pos (repr p) = Returns p"
proof -
  obtain b where b: "pos p = int b" using assms by (metis nonneg_int_cases)
  consider (zero) "tpos p = 0" | (plus) "0 < tpos p" | (minus) "tpos p < 0" by linarith
  then show ?thesis
  proof cases
    case zero
    then have "repr p = str_nat b" by (simp add: repr_def str_int_def b)
    then show ?thesis
      using zero b by (simp add: parse_pos_def isdigit_str_nat py_int_str_nat new_Pos_def)
  next
    case plus
    then obtain t where t: "tpos p = int t" by (metis nonneg_int_cases less_imp_le)
    have "repr p = str_nat b @ CHR ''+'' # str_nat t"
      using plus by (simp add: repr_def str_int_def b t)
    then show ?thesis
      using b t
      by (simp add: parse_pos_def not_isdigit_render match_digits_signed_render
          py_eval_plus new_Pos_def py_int_str_nat)
  next
    case minus
    then obtain t where t: "tpos p = - int t"
      by (metis int_cases2 add.inverse_inverse less_imp_le nonneg_int_cases neg_0_le_iff_le)
    have "repr p = str_nat b @ CHR ''-'' # str_nat t"
      using minus by (simp add: repr_def str_int_def b t)
    then show ?thesis
      using b t
      by (simp add: parse_pos_def not_isdigit_render match_digits_signed_render
          py_eval_minus new_Pos_def py_int_str_nat)
  qed
qed

theorem repr_parse_pos_roundtrip_witness:
  "parse_pos (repr \<lparr>pos = 123, tpos = 0\<rparr>) = Returns \<lparr>pos = 123, tpos = 0\<rparr> \<and>
   parse_pos (repr \<lparr>pos = 123, tpos = 45\<rparr>) = Returns \<lparr>pos = 123, tpos = 45\<rparr> \<and>
   parse_pos (repr \<lparr>pos = 123, tpos = - 7\<rparr>) = Returns \<lparr>pos = 123, tpos = - 7\<rparr>"
  using repr_parse_pos_roundtrip [of "\<lparr>pos = 123, tpos = 0\<rparr>"]
    repr_parse_pos_roundtrip [of "\<lparr>pos = 123, tpos = 45\<rparr>"]
    repr_parse_pos_roundtrip [of "\<lparr>pos = 123, tpos = - 7\<rparr>"]
  by simp

text \<open>
  C2 as stated fails for a negative base with offset 0: base -5 renders as \<open>"-5"\<close>, which the
  grammar reads as offset -5 from base 1.
\<close>

theorem repr_parse_pos_negative_base_counterexample:
  "repr \<lparr>pos = - 5, tpos = 0\<rparr> = ''-5'' \<and>
   parse_pos (repr \<lparr>pos = - 5, tpos = 0\<rparr>) = Returns \<lparr>pos = 1, tpos = - 5\<rparr> \<and>
   parse_pos (repr \<lparr>pos = - 5, tpos = 0\<rparr>) \<noteq> Returns \<lparr>pos = - 5, tpos = 0\<rparr>"
proof (intro conjI)
  show "repr \<lparr>pos = - 5, tpos = 0\<rparr> = ''-5''" by code_simp
  show p: "parse_pos (repr \<lparr>pos = - 5, tpos = 0\<rparr>) = Returns \<lparr>pos = 1, tpos = - 5\<rparr>"
    by code_simp
  show "parse_pos (repr \<lparr>pos = - 5, tpos = 0\<rparr>) \<noteq> Returns \<lparr>pos = - 5, tpos = 0\<rparr>"
    unfolding p by simp
qed

text \<open>
  C3. For a variant record, \<open>formats\<close> puts the consequence in front of \<open>info\<close>:
  \<open>CSQN=Unclassified\<close> when no tag was collected, \<open>CSQN=<tag>\<close> when the tags are all the
  one tag, and \<open>CSQN=Multi:\<close> with all tags, joined by commas in the order collected, when
  there are several distinct tags. What was in \<open>info\<close> follows after a semicolon (\<open>rest\<close>),
  and the finished \<open>info\<close> starts with the consequence. For a record that is not a variant
  the step changes nothing, and an \<open>info\<close> that did not start with \<open>CSQN=\<close> does not
  start with it afterwards.
\<close>

theorem formats_csqn_prefix:
  assumes "rest = (if info r \<noteq> [] \<and> info r \<noteq> ''.'' then '';'' @ info r else [])"
  shows
  "(is_var r \<and> csqn r = [] \<longrightarrow>
      info (formats_csqn r) = ''CSQN=Unclassified'' @ rest \<and>
      prefix ''CSQN=Unclassified'' (info (formats_info r))) \<and>
   (is_var r \<and> set (csqn r) = {tag} \<longrightarrow>
      info (formats_csqn r) = ''CSQN='' @ tag @ rest \<and>
      prefix (''CSQN='' @ tag) (info (formats_info r))) \<and>
   (is_var r \<and> 1 < card (set (csqn r)) \<longrightarrow>
      info (formats_csqn r) = ''CSQN=Multi:'' @ join '','' (csqn r) @ rest \<and>
      prefix (''CSQN=Multi:'' @ join '','' (csqn r)) (info (formats_info r))) \<and>
   (\<not> is_var r \<longrightarrow>
      formats_csqn r = r \<and>
      (\<not> prefix ''CSQN='' (info r) \<longrightarrow> \<not> prefix ''CSQN='' (info (formats_info r))))"
proof (intro conjI impI)
  assume h: "is_var r \<and> csqn r = []"
  then show a: "info (formats_csqn r) = ''CSQN=Unclassified'' @ rest"
    by (simp add: formats_csqn_def info_prepend_info assms)
  show "prefix ''CSQN=Unclassified'' (info (formats_info r))"
    unfolding formats_info_def
    by (rule formats_transcript_keeps_prefix) (simp_all add: a)
next
  assume h: "is_var r \<and> set (csqn r) = {tag}"
  then show a: "info (formats_csqn r) = ''CSQN='' @ tag @ rest"
    using single_tag [of "csqn r" tag]
    by (simp add: formats_csqn_def info_prepend_info assms)
  show "prefix (''CSQN='' @ tag) (info (formats_info r))"
    unfolding formats_info_def
    by (rule formats_transcript_keeps_prefix) (simp_all add: a)
next
  assume h: "is_var r \<and> 1 < card (set (csqn r))"
  then show a: "info (formats_csqn r) = ''CSQN=Multi:'' @ join '','' (csqn r) @ rest"
    using several_tags [of "csqn r"]
    by (simp add: formats_csqn_def info_prepend_info assms)
  show "prefix (''CSQN=Multi:'' @ join '','' (csqn r)) (info (formats_info r))"
    unfolding formats_info_def
    by (rule formats_transcript_keeps_prefix) (simp_all add: a)
next
  assume "\<not> is_var r"
  then show "formats_csqn r = r" by (simp add: formats_csqn_def)
next
  assume "\<not> is_var r" and "\<not> prefix ''CSQN='' (info r)"
  then show "\<not> prefix ''CSQN='' (info (formats_info r))"
    by (simp add: formats_info_def formats_csqn_def formats_transcript_no_csqn)
qed

theorem formats_csqn_prefix_witness:
  "info (formats_csqn \<lparr>tname = ''NM_1'', chrm = ''chr1'', gene = ''G'', strand = ''+'',
       reg = NoReg, info = ''.'', is_var = True, csqn = []\<rparr>) = ''CSQN=Unclassified'' \<and>
   info (formats_csqn \<lparr>tname = ''NM_1'', chrm = ''chr1'', gene = ''G'', strand = ''+'',
       reg = NoReg, info = ''.'', is_var = True, csqn = [''Missense'', ''Missense'']\<rparr>)
     = ''CSQN=Missense'' \<and>
   info (formats_csqn \<lparr>tname = ''NM_1'', chrm = ''chr1'', gene = ''G'', strand = ''+'',
       reg = NoReg, info = ''left=1'', is_var = True, csqn = [''Missense'', ''SpliceDonor'']\<rparr>)
     = ''CSQN=Multi:Missense,SpliceDonor;left=1'' \<and>
   \<not> prefix ''CSQN='' (info (formats_info \<lparr>tname = ''NM_1'', chrm = ''chr1'', gene = ''G'',
       strand = ''+'', reg = NoReg, info = ''left=1'', is_var = False,
       csqn = [''Missense'', ''SpliceDonor'']\<rparr>))"
  using
    formats_csqn_prefix [of "[]" "\<lparr>tname = ''NM_1'', chrm = ''chr1'', gene = ''G'', strand = ''+'',
       reg = NoReg, info = ''.'', is_var = True, csqn = []\<rparr>" "[]"]
    formats_csqn_prefix [of "[]" "\<lparr>tname = ''NM_1'', chrm = ''chr1'', gene = ''G'', strand = ''+'',
       reg = NoReg, info = ''.'', is_var = True, csqn = [''Missense'', ''Missense'']\<rparr>"
       "''Missense''"]
    formats_csqn_prefix [of "'';left=1''" "\<lparr>tname = ''NM_1'', chrm = ''chr1'', gene = ''G'',
       strand = ''+'', reg = NoReg, info = ''left=1'', is_var = True,
       csqn = [''Missense'', ''SpliceDonor'']\<rparr>" "[]"]
    formats_csqn_prefix [of "'';left=1''" "\<lparr>tname = ''NM_1'', chrm = ''chr1'', gene = ''G'',
       strand = ''+'', reg = NoReg, info = ''left=1'', is_var = False,
       csqn = [''Missense'', ''SpliceDonor'']\<rparr>" "[]"]
  by simp

text \<open>
  C4 (as amended). When both descriptions can be formatted, \<open>same_region\<close> is true exactly
  when the two descriptions are equal and, in addition, at least one of the two
  annotations carries no transcript or both carry the same transcript.
\<close>

theorem same_region_iff:
  assumes "RegAnno_format r1 False = Returns f1" and "RegAnno_format r2 False = Returns f2"
  shows "same_region r1 r2 =
           Returns (f1 = f2 \<and> (reg_t r1 = None \<or> reg_t r2 = None \<or> reg_t r1 = reg_t r2))"
  using assms by (simp add: same_region_def then_do_Returns)

theorem same_region_iff_witness:
  "same_region
     \<lparr>exonic = False, exon = None, cds = False, UTR = None, intronic = True,
      intron_exon1 = Some 2, intron_exon2 = Some 3, cds_beg = None, cds_end = None,
      intergenic = None, reg_t = Some \<lparr>gene_name = ''TP53'', gene_dbxref = [], aliases = [], source = [],
        t_strand = ''-'', t_chrm = ''chr17'', t_cds_beg = 100, t_cds_end = 900\<rparr>, splice = None, tss = None, tes = None\<rparr>
     \<lparr>exonic = False, exon = None, cds = False, UTR = None, intronic = True,
      intron_exon1 = Some 2, intron_exon2 = Some 3, cds_beg = None, cds_end = None,
      intergenic = None, reg_t = Some \<lparr>gene_name = ''WRAP53'', gene_dbxref = [], aliases = [], source = [],
        t_strand = ''-'', t_chrm = ''chr17'', t_cds_beg = 100, t_cds_end = 900\<rparr>, splice = None, tss = None, tes = None\<rparr> = Returns False \<and>
   same_region
     \<lparr>exonic = False, exon = None, cds = False, UTR = None, intronic = True,
      intron_exon1 = Some 2, intron_exon2 = Some 3, cds_beg = None, cds_end = None,
      intergenic = None, reg_t = Some \<lparr>gene_name = ''TP53'', gene_dbxref = [], aliases = [], source = [],
        t_strand = ''-'', t_chrm = ''chr17'', t_cds_beg = 100, t_cds_end = 900\<rparr>, splice = None, tss = None, tes = None\<rparr>
     \<lparr>exonic = False, exon = None, cds = False, UTR = None, intronic = True,
      intron_exon1 = Some 2, intron_exon2 = Some 3, cds_beg = None, cds_end = None,
      intergenic = None, reg_t = Some \<lparr>gene_name = ''TP53'', gene_dbxref = [], aliases = [], source = [],
        t_strand = ''-'', t_chrm = ''chr17'', t_cds_beg = 100, t_cds_end = 900\<rparr>, splice = None, tss = None, tes = None\<rparr> = Returns True"
proof -
  have f1: "RegAnno_format \<lparr>exonic = False, exon = None, cds = False, UTR = None, intronic = True,
      intron_exon1 = Some 2, intron_exon2 = Some 3, cds_beg = None, cds_end = None,
      intergenic = None, reg_t = Some \<lparr>gene_name = ''TP53'', gene_dbxref = [], aliases = [], source = [],
        t_strand = ''-'', t_chrm = ''chr17'', t_cds_beg = 100, t_cds_end = 900\<rparr>, splice = None, tss = None, tes = None\<rparr> False = Returns ''inside_[intron_between_exon_2_and_3]''"
    by code_simp
  have f3: "RegAnno_format \<lparr>exonic = False, exon = None, cds = False, UTR = None, intronic = True,
      intron_exon1 = Some 2, intron_exon2 = Some 3, cds_beg = None, cds_end = None,
      intergenic = None, reg_t = Some \<lparr>gene_name = ''WRAP53'', gene_dbxref = [], aliases = [], source = [],
        t_strand = ''-'', t_chrm = ''chr17'', t_cds_beg = 100, t_cds_end = 900\<rparr>, splice = None, tss = None, tes = None\<rparr> False = Returns ''inside_[intron_between_exon_2_and_3]''"
    by code_simp
  show ?thesis
    using same_region_iff [OF f1 f3] same_region_iff [OF f1 f1] by simp
qed

text \<open>
  C4 as stated fails when exactly one annotation carries a transcript: with equal
  descriptions the two are the same region, since the transcripts are compared only when
  both are there.
\<close>

theorem same_region_one_transcript_counterexample:
  "RegAnno_format \<lparr>exonic = False, exon = None, cds = False, UTR = None, intronic = True,
      intron_exon1 = Some 2, intron_exon2 = Some 3, cds_beg = None, cds_end = None,
      intergenic = None, reg_t = Some \<lparr>gene_name = ''TP53'', gene_dbxref = [], aliases = [], source = [],
        t_strand = ''-'', t_chrm = ''chr17'', t_cds_beg = 100, t_cds_end = 900\<rparr>, splice = None, tss = None, tes = None\<rparr> False = Returns ''inside_[intron_between_exon_2_and_3]'' \<and>
   RegAnno_format \<lparr>exonic = False, exon = None, cds = False, UTR = None, intronic = True,
      intron_exon1 = Some 2, intron_exon2 = Some 3, cds_beg = None, cds_end = None,
      intergenic = None, reg_t = None, splice = None, tss = None, tes = None\<rparr> False = Returns ''inside_[intron_between_exon_2_and_3]'' \<and>
   reg_t \<lparr>exonic = False, exon = None, cds = False, UTR = None, intronic = True,
      intron_exon1 = Some 2, intron_exon2 = Some 3, cds_beg = None, cds_end = None,
      intergenic = None, reg_t = Some \<lparr>gene_name = ''TP53'', gene_dbxref = [], aliases = [], source = [],
        t_strand = ''-'', t_chrm = ''chr17'', t_cds_beg = 100, t_cds_end = 900\<rparr>, splice = None, tss = None, tes = None\<rparr> \<noteq> None \<and>
   reg_t \<lparr>exonic = False, exon = None, cds = False, UTR = None, intronic = True,
      intron_exon1 = Some 2, intron_exon2 = Some 3, cds_beg = None, cds_end = None,
      intergenic = None, reg_t = None, splice = None, tss = None, tes = None\<rparr> = None \<and>
   same_region
     \<lparr>exonic = False, exon = None, cds = False, UTR = None, intronic = True,
      intron_exon1 = Some 2, intron_exon2 = Some 3, cds_beg = None, cds_end = None,
      intergenic = None, reg_t = Some \<lparr>gene_name = ''TP53'', gene_dbxref = [], aliases = [], source = [],
        t_strand = ''-'', t_chrm = ''chr17'', t_cds_beg = 100, t_cds_end = 900\<rparr>, splice = None, tss = None, tes = None\<rparr>
     \<lparr>exonic = False, exon = None, cds = False, UTR = None, intronic = True,
      intron_exon1 = Some 2, intron_exon2 = Some 3, cds_beg = None, cds_end = None,
      intergenic = None, reg_t = None, splice = None, tss = None, tes = None\<rparr> = Returns True"
  by code_simp

text \<open>
  C5. The label of \<open>csqn()\<close> follows a fixed precedence. For a span: an attached
  intergenic record that spans no gene (\<open>ig\<close>) gives \<open>Intergenic\<close>; else a non-empty list of
  splice donors gives \<open>SpliceDonor\<close>; else a non-empty list of splice acceptors gives
  \<open>SpliceAcceptor\<close>; else \<open>in_intron\<close> gives \<open>Intronic\<close>; else \<open>in_UTR\<close> gives the side of
  the first boundary followed by \<open>-UTR\<close>; else \<open>Unclassified\<close>. For a single site:
  intronic gives \<open>Intronic\<close>; else a UTR side that is set gives the side followed by
  \<open>-UTR\<close>; else an attached intergenic record gives \<open>Intergenic\<close>; else \<open>Unclassified\<close>.
\<close>

theorem csqn_precedence:
  fixes x :: RegSpanAnno and y :: RegAnno
  assumes ig: "ig \<longleftrightarrow> (\<exists>g. span_intergenic x = Some g \<and> ig_spanning g = [])"
  shows
  "(ig \<longrightarrow> RegSpanAnno_csqn x = ''Intergenic'') \<and>
   (\<not> ig \<and> splice_donors x \<noteq> [] \<longrightarrow> RegSpanAnno_csqn x = ''SpliceDonor'') \<and>
   (\<not> ig \<and> splice_donors x = [] \<and> splice_acceptors x \<noteq> [] \<longrightarrow>
      RegSpanAnno_csqn x = ''SpliceAcceptor'') \<and>
   (\<not> ig \<and> splice_donors x = [] \<and> splice_acceptors x = [] \<and> in_intron x \<longrightarrow>
      RegSpanAnno_csqn x = ''Intronic'') \<and>
   (\<not> ig \<and> splice_donors x = [] \<and> splice_acceptors x = [] \<and> \<not> in_intron x \<and> in_UTR x
      \<and> UTR (b1 x) = Some side \<longrightarrow> RegSpanAnno_csqn x = side @ ''-UTR'') \<and>
   (\<not> ig \<and> splice_donors x = [] \<and> splice_acceptors x = [] \<and> \<not> in_intron x \<and> \<not> in_UTR x \<longrightarrow>
      RegSpanAnno_csqn x = ''Unclassified'') \<and>
   (intronic y \<longrightarrow> RegAnno_csqn y = ''Intronic'') \<and>
   (\<not> intronic y \<and> UTR y = Some side' \<and> side' \<noteq> [] \<longrightarrow> RegAnno_csqn y = side' @ ''-UTR'') \<and>
   (\<not> intronic y \<and> \<not> truthy (UTR y) \<and> intergenic y \<noteq> None \<longrightarrow>
      RegAnno_csqn y = ''Intergenic'') \<and>
   (\<not> intronic y \<and> \<not> truthy (UTR y) \<and> intergenic y = None \<longrightarrow>
      RegAnno_csqn y = ''Unclassified'')"
proof -
  have c: "(case span_intergenic x of None \<Rightarrow> False | Some g \<Rightarrow> length (ig_spanning g) = 0) = ig"
    unfolding ig by (cases "span_intergenic x") simp_all
  have span: "RegSpanAnno_csqn x =
     (if ig then ''Intergenic''
      else if splice_donors x \<noteq> [] then ''SpliceDonor''
      else if splice_acceptors x \<noteq> [] then ''SpliceAcceptor''
      else if in_intron x then ''Intronic''
      else if in_UTR x then fmt_s (UTR (b1 x)) @ ''-UTR''
      else ''Unclassified'')"
    unfolding RegSpanAnno_csqn_def c by simp
  have site: "RegAnno_csqn y =
     (if intronic y then ''Intronic''
      else if truthy (UTR y) then fmt_s (UTR y) @ ''-UTR''
      else if intergenic y \<noteq> None then ''Intergenic''
      else ''Unclassified'')"
    by (simp add: RegAnno_csqn_def)
  show ?thesis
    unfolding span site by (simp add: fmt_s_def truthy_def)
qed

theorem csqn_precedence_witness:
  "RegSpanAnno_csqn
     \<lparr>b1 = \<lparr>exonic = False, exon = None, cds = False, UTR = None, intronic = True,
        intron_exon1 = Some 2, intron_exon2 = Some 3, cds_beg = None, cds_end = None,
        intergenic = None, reg_t = None, splice = None, tss = None, tes = None\<rparr>,
      b2 = \<lparr>exonic = False, exon = None, cds = False, UTR = None, intronic = True,
        intron_exon1 = Some 2, intron_exon2 = Some 3, cds_beg = None, cds_end = None,
        intergenic = None, reg_t = None, splice = None, tss = None, tes = None\<rparr>,
      spanning = [], span_intergenic = None, splice_donors = [(2, ''chr17'', 150)],
      splice_acceptors = [], splice_both = [], cross_start = False, cross_end = False,
      span_t = None\<rparr> = ''SpliceDonor'' \<and>
   RegSpanAnno_csqn
     \<lparr>b1 = \<lparr>exonic = False, exon = None, cds = False, UTR = Some ''3'', intronic = False,
        intron_exon1 = None, intron_exon2 = None, cds_beg = None, cds_end = None,
        intergenic = None, reg_t = None, splice = None, tss = None, tes = None\<rparr>,
      b2 = \<lparr>exonic = False, exon = None, cds = False, UTR = Some ''3'', intronic = False,
        intron_exon1 = None, intron_exon2 = None, cds_beg = None, cds_end = None,
        intergenic = None, reg_t = None, splice = None, tss = None, tes = None\<rparr>,
      spanning = [], span_intergenic = None, splice_donors = [],
      splice_acceptors = [], splice_both = [], cross_start = False, cross_end = False,
      span_t = None\<rparr> = ''3-UTR'' \<and>
   RegAnno_csqn
     \<lparr>exonic = False, exon = None, cds = False, UTR = Some ''5'', intronic = False,
        intron_exon1 = None, intron_exon2 = None, cds_beg = None, cds_end = None,
        intergenic = None, reg_t = None, splice = None, tss = None, tes = None\<rparr> = ''5-UTR''"
proof -
  have u: "in_UTR
     \<lparr>b1 = \<lparr>exonic = False, exon = None, cds = False, UTR = Some ''3'', intronic = False,
        intron_exon1 = None, intron_exon2 = None, cds_beg = None, cds_end = None,
        intergenic = None, reg_t = None, splice = None, tss = None, tes = None\<rparr>,
      b2 = \<lparr>exonic = False, exon = None, cds = False, UTR = Some ''3'', intronic = False,
        intron_exon1 = None, intron_exon2 = None, cds_beg = None, cds_end = None,
        intergenic = None, reg_t = None, splice = None, tss = None, tes = None\<rparr>,
      spanning = [], span_intergenic = None, splice_donors = [],
      splice_acceptors = [], splice_both = [], cross_start = False, cross_end = False,
      span_t = None\<rparr>"
    and n: "\<not> in_intron
     \<lparr>b1 = \<lparr>exonic = False, exon = None, cds = False, UTR = Some ''3'', intronic = False,
        intron_exon1 = None, intron_exon2 = None, cds_beg = None, cds_end = None,
        intergenic = None, reg_t = None, splice = None, tss = None, tes = None\<rparr>,
      b2 = \<lparr>exonic = False, exon = None, cds = False, UTR = Some ''3'', intronic = False,
        intron_exon1 = None, intron_exon2 = None, cds_beg = None, cds_end = None,
        intergenic = None, reg_t = None, splice = None, tss = None, tes = None\<rparr>,
      spanning = [], span_intergenic = None, splice_donors = [],
      splice_acceptors = [], splice_both = [], cross_start = False, cross_end = False,
      span_t = None\<rparr>"
    by (simp_all add: in_UTR_def in_intron_def truthy_def)
  show ?thesis
    using
      csqn_precedence [where ig = False and side = "''3''" and side' = "''5''" and y = "\<lparr>exonic = False, exon = None, cds = False, UTR = Some ''5'', intronic = False,
        intron_exon1 = None, intron_exon2 = None, cds_beg = None, cds_end = None,
        intergenic = None, reg_t = None, splice = None, tss = None, tes = None\<rparr>"
        and x = "\<lparr>b1 = \<lparr>exonic = False, exon = None, cds = False, UTR = None, intronic = True,
        intron_exon1 = Some 2, intron_exon2 = Some 3, cds_beg = None, cds_end = None,
        intergenic = None, reg_t = None, splice = None, tss = None, tes = None\<rparr>,
      b2 = \<lparr>exonic = False, exon = None, cds = False, UTR = None, intronic = True,
        intron_exon1 = Some 2, intron_exon2 = Some 3, cds_beg = None, cds_end = None,
        intergenic = None, reg_t = None, splice = None, tss = None, tes = None\<rparr>,
      spanning = [], span_intergenic = None, splice_donors = [(2, ''chr17'', 150)],
      splice_acceptors = [], splice_both = [], cross_start = False, cross_end = False,
      span_t = None\<rparr>"]
      csqn_precedence [where ig = False and side = "''3''" and side' = "''5''" and y = "\<lparr>exonic = False, exon = None, cds = False, UTR = Some ''5'', intronic = False,
        intron_exon1 = None, intron_exon2 = None, cds_beg = None, cds_end = None,
        intergenic = None, reg_t = None, splice = None, tss = None, tes = None\<rparr>"
        and x = "\<lparr>b1 = \<lparr>exonic = False, exon = None, cds = False, UTR = Some ''3'', intronic = False,
        intron_exon1 = None, intron_exon2 = None, cds_beg = None, cds_end = None,
        intergenic = None, reg_t = None, splice = None, tss = None, tes = None\<rparr>,
      b2 = \<lparr>exonic = False, exon = None, cds = False, UTR = Some ''3'', intronic = False,
        intron_exon1 = None, intron_exon2 = None, cds_beg = None, cds_end = None,
        intergenic = None, reg_t = None, splice = None, tss = None, tes = None\<rparr>,
      spanning = [], span_intergenic = None, splice_donors = [],
      splice_acceptors = [], splice_both = [], cross_start = False, cross_end = False,
      span_t = None\<rparr>"]
      u n
    by simp
qed

text \<open>
  C6. \<open>set_splice\<close> on a record whose region is a span with its transcript: the call
  returns, and the tags it appends are, in this order, the splice donor tag, the splice
  acceptor tag, the tag for \<open>cross_start\<close> and the tag for \<open>cross_end\<close>. For
  \<open>cross_start\<close> the tag is \<open>CdsStart\<close> on strand \<open>+\<close> and \<open>CdsStop\<close> otherwise; for
  \<open>cross_end\<close> it is \<open>CdsStop\<close> on strand \<open>+\<close> and \<open>CdsStart\<close> otherwise; each is followed
  by the consequence action (the argument \<open>csqn_action\<close>). The boolean returned is true
  when \<open>cross_start\<close> or \<open>cross_end\<close> is set.
\<close>

theorem set_splice_cds_boundary:
  assumes "reg r = Span x" and "span_t x = Some tr"
  shows "\<exists>r'. set_splice r action csqn_action =
            Returns (splice_donors x \<noteq> [] \<or> splice_acceptors x \<noteq> [] \<or> splice_both x \<noteq> []
                       \<or> cross_start x \<or> cross_end x, r') \<and>
          csqn r' = csqn r
            @ (if splice_donors x \<noteq> [] then [''SpliceDonor'' @ csqn_action] else [])
            @ (if splice_acceptors x \<noteq> [] then [''SpliceAcceptor'' @ csqn_action] else [])
            @ (if cross_start x
               then [(if t_strand tr = ''+'' then ''CdsStart'' else ''CdsStop'') @ csqn_action]
               else [])
            @ (if cross_end x
               then [(if t_strand tr = ''+'' then ''CdsStop'' else ''CdsStart'') @ csqn_action]
               else [])"
  using assms
  by (simp add: set_splice_def set_splice_span_def span_donors_def span_acceptors_def
      span_both_def span_cross_start_def span_cross_end_def then_do_def Let_def
      csqn_append_info csqn_splice_site_infos csqn_csqn_append)

theorem set_splice_cds_boundary_witness:
  "(\<exists>r'. set_splice
      \<lparr>tname = ''NM_1'', chrm = ''chr17'', gene = ''TP53'', strand = ''-'',
    reg = Span
     \<lparr>b1 = \<lparr>exonic = False, exon = None, cds = False, UTR = None, intronic = False,
        intron_exon1 = None, intron_exon2 = None, cds_beg = None, cds_end = None,
        intergenic = None, reg_t = None, splice = None, tss = None, tes = None\<rparr>,
      b2 = \<lparr>exonic = False, exon = None, cds = False, UTR = None, intronic = False,
        intron_exon1 = None, intron_exon2 = None, cds_beg = None, cds_end = None,
        intergenic = None, reg_t = None, splice = None, tss = None, tes = None\<rparr>,
      spanning = [], span_intergenic = None, splice_donors = [],
      splice_acceptors = [], splice_both = [], cross_start = True, cross_end = False,
      span_t = Some \<lparr>gene_name = ''TP53'', gene_dbxref = [], aliases = [], source = [],
        t_strand = ''-'', t_chrm = ''chr17'', t_cds_beg = 100, t_cds_end = 900\<rparr>\<rparr>,
    info = ''.'', is_var = True, csqn = []\<rparr>
      ''del'' ''Deletion'' = Returns (True, r') \<and> csqn r' = [''CdsStopDeletion'']) \<and>
   (\<exists>r'. set_splice
      \<lparr>tname = ''NM_1'', chrm = ''chr17'', gene = ''TP53'', strand = ''-'',
    reg = Span
     \<lparr>b1 = \<lparr>exonic = False, exon = None, cds = False, UTR = None, intronic = False,
        intron_exon1 = None, intron_exon2 = None, cds_beg = None, cds_end = None,
        intergenic = None, reg_t = None, splice = None, tss = None, tes = None\<rparr>,
      b2 = \<lparr>exonic = False, exon = None, cds = False, UTR = None, intronic = False,
        intron_exon1 = None, intron_exon2 = None, cds_beg = None, cds_end = None,
        intergenic = None, reg_t = None, splice = None, tss = None, tes = None\<rparr>,
      spanning = [], span_intergenic = None, splice_donors = [(2, ''chr17'', 150)],
      splice_acceptors = [], splice_both = [], cross_start = False, cross_end = True,
      span_t = Some \<lparr>gene_name = ''TP53'', gene_dbxref = [], aliases = [], source = [],
        t_strand = ''+'', t_chrm = ''chr17'', t_cds_beg = 100, t_cds_end = 900\<rparr>\<rparr>,
    info = ''.'', is_var = True, csqn = []\<rparr>
      ''del'' ''Deletion'' = Returns (True, r') \<and>
      csqn r' = [''SpliceDonorDeletion'', ''CdsStopDeletion''])"
  using
    set_splice_cds_boundary [of
      "\<lparr>tname = ''NM_1'', chrm = ''chr17'', gene = ''TP53'', strand = ''-'',
    reg = Span
     \<lparr>b1 = \<lparr>exonic = False, exon = None, cds = False, UTR = None, intronic = False,
        intron_exon1 = None, intron_exon2 = None, cds_beg = None, cds_end = None,
        intergenic = None, reg_t = None, splice = None, tss = None, tes = None\<rparr>,
      b2 = \<lparr>exonic = False, exon = None, cds = False, UTR = None, intronic = False,
        intron_exon1 = None, intron_exon2 = None, cds_beg = None, cds_end = None,
        intergenic = None, reg_t = None, splice = None, tss = None, tes = None\<rparr>,
      spanning = [], span_intergenic = None, splice_donors = [],
      splice_acceptors = [], splice_both = [], cross_start = True, cross_end = False,
      span_t = Some \<lparr>gene_name = ''TP53'', gene_dbxref = [], aliases = [], source = [],
        t_strand = ''-'', t_chrm = ''chr17'', t_cds_beg = 100, t_cds_end = 900\<rparr>\<rparr>,
    info = ''.'', is_var = True, csqn = []\<rparr>"
      "\<lparr>b1 = \<lparr>exonic = False, exon = None, cds = False, UTR = None, intronic = False,
        intron_exon1 = None, intron_exon2 = None, cds_beg = None, cds_end = None,
        intergenic = None, reg_t = None, splice = None, tss = None, tes = None\<rparr>,
      b2 = \<lparr>exonic = False, exon = None, cds = False, UTR = None, intronic = False,
        intron_exon1 = None, intron_exon2 = None, cds_beg = None, cds_end = None,
        intergenic = None, reg_t = None, splice = None, tss = None, tes = None\<rparr>,
      spanning = [], span_intergenic = None, splice_donors = [],
      splice_acceptors = [], splice_both = [], cross_start = True, cross_end = False,
      span_t = Some \<lparr>gene_name = ''TP53'', gene_dbxref = [], aliases = [], source = [],
        t_strand = ''-'', t_chrm = ''chr17'', t_cds_beg = 100, t_cds_end = 900\<rparr>\<rparr>"
      "\<lparr>gene_name = ''TP53'', gene_dbxref = [], aliases = [], source = [],
        t_strand = ''-'', t_chrm = ''chr17'', t_cds_beg = 100, t_cds_end = 900\<rparr>" "''del''" "''Deletion''"]
    set_splice_cds_boundary [of
      "\<lparr>tname = ''NM_1'', chrm = ''chr17'', gene = ''TP53'', strand = ''-'',
    reg = Span
     \<lparr>b1 = \<lparr>exonic = False, exon = None, cds = False, UTR = None, intronic = False,
        intron_exon1 = None, intron_exon2 = None, cds_beg = None, cds_end = None,
        intergenic = None, reg_t = None, splice = None, tss = None, tes = None\<rparr>,
      b2 = \<lparr>exonic = False, exon = None, cds = False, UTR = None, intronic = False,
        intron_exon1 = None, intron_exon2 = None, cds_beg = None, cds_end = None,
        intergenic = None, reg_t = None, splice = None, tss = None, tes = None\<rparr>,
      spanning = [], span_intergenic = None, splice_donors = [(2, ''chr17'', 150)],
      splice_acceptors = [], splice_both = [], cross_start = False, cross_end = True,
      span_t = Some \<lparr>gene_name = ''TP53'', gene_dbxref = [], aliases = [], source = [],
        t_strand = ''+'', t_chrm = ''chr17'', t_cds_beg = 100, t_cds_end = 900\<rparr>\<rparr>,
    info = ''.'', is_var = True, csqn = []\<rparr>"
      "\<lparr>b1 = \<lparr>exonic = False, exon = None, cds = False, UTR = None, intronic = False,
        intron_exon1 = None, intron_exon2 = None, cds_beg = None, cds_end = None,
        intergenic = None, reg_t = None, splice = None, tss = None, tes = None\<rparr>,
      b2 = \<lparr>exonic = False, exon = None, cds = False, UTR = None, intronic = False,
        intron_exon1 = None, intron_exon2 = None, cds_beg = None, cds_end = None,
        intergenic = None, reg_t = None, splice = None, tss = None, tes = None\<rparr>,
      spanning = [], span_intergenic = None, splice_donors = [(2, ''chr17'', 150)],
      splice_acceptors = [], splice_both = [], cross_start = False, cross_end = True,
      span_t = Some \<lparr>gene_name = ''TP53'', gene_dbxref = [], aliases = [], source = [],
        t_strand = ''+'', t_chrm = ''chr17'', t_cds_beg = 100, t_cds_end = 900\<rparr>\<rparr>"
      "\<lparr>gene_name = ''TP53'', gene_dbxref = [], aliases = [], source = [],
        t_strand = ''+'', t_chrm = ''chr17'', t_cds_beg = 100, t_cds_end = 900\<rparr>" "''del''" "''Deletion''"]
  by simp

text \<open>
  C7 (as amended). \<open>normalize_reg\<close> never raises. It brings each endpoint down to the
  reference length when it is above it, and then up to 0 when it is negative: the upper
  bound is checked, for both endpoints, before the negative endpoints are brought to 0.
  It writes one warning at each of these steps, in this order: the begin above the
  length, the end above the length, the negative begin, the negative end. With a
  reference length that is not negative both endpoints end in the range from 0 to the
  length, and there is one warning for each endpoint that was outside the range. Endpoints
  inside the range are unchanged, without a warning.
\<close>

theorem normalize_reg_clamps:
  assumes "len = reflen (tok q)"
  shows
  "fst (normalize_reg reflen q) =
     q\<lparr>q_beg := max 0 (min (q_beg q) len), q_end := max 0 (min (q_end q) len)\<rparr> \<and>
   snd (normalize_reg reflen q) =
     (if q_beg q > len
      then [''region beg '' @ str_int (q_beg q) @ '' greater than chromosome length ''
              @ str_int len @ '', truncated.''] else [])
     @ (if q_end q > len
        then [''region end '' @ str_int (q_end q) @ '' greater than chromosome length ''
                @ str_int len @ '', truncated.''] else [])
     @ (if min (q_beg q) len < 0 then [''region beg %d negative, truncated to 0.''] else [])
     @ (if min (q_end q) len < 0 then [''region end %d negative, truncated to 0.''] else []) \<and>
   (0 \<le> len \<longrightarrow>
      0 \<le> q_beg (fst (normalize_reg reflen q)) \<and> q_beg (fst (normalize_reg reflen q)) \<le> len \<and>
      0 \<le> q_end (fst (normalize_reg reflen q)) \<and> q_end (fst (normalize_reg reflen q)) \<le> len \<and>
      length (snd (normalize_reg reflen q)) =
        (if q_beg q < 0 \<or> len < q_beg q then 1 else 0)
        + (if q_end q < 0 \<or> len < q_end q then 1 else 0)) \<and>
   (0 \<le> q_beg q \<and> q_beg q \<le> len \<and> 0 \<le> q_end q \<and> q_end q \<le> len \<longrightarrow>
      normalize_reg reflen q = (q, []))"
proof -
  have f: "fst (normalize_reg reflen q) =
     q\<lparr>q_beg := max 0 (min (q_beg q) len), q_end := max 0 (min (q_end q) len)\<rparr>"
    using assms by (auto simp: normalize_reg_def Let_def max_def min_def)
  have w: "snd (normalize_reg reflen q) =
     (if q_beg q > len
      then [''region beg '' @ str_int (q_beg q) @ '' greater than chromosome length ''
              @ str_int len @ '', truncated.''] else [])
     @ (if q_end q > len
        then [''region end '' @ str_int (q_end q) @ '' greater than chromosome length ''
                @ str_int len @ '', truncated.''] else [])
     @ (if min (q_beg q) len < 0 then [''region beg %d negative, truncated to 0.''] else [])
     @ (if min (q_end q) len < 0 then [''region end %d negative, truncated to 0.''] else [])"
    using assms by (auto simp: normalize_reg_def Let_def max_def min_def)
  have r: "0 \<le> len \<longrightarrow>
      0 \<le> q_beg (fst (normalize_reg reflen q)) \<and> q_beg (fst (normalize_reg reflen q)) \<le> len \<and>
      0 \<le> q_end (fst (normalize_reg reflen q)) \<and> q_end (fst (normalize_reg reflen q)) \<le> len \<and>
      length (snd (normalize_reg reflen q)) =
        (if q_beg q < 0 \<or> len < q_beg q then 1 else 0)
        + (if q_end q < 0 \<or> len < q_end q then 1 else 0)"
    unfolding f w by (auto simp: max_def min_def)
  have i: "0 \<le> q_beg q \<and> q_beg q \<le> len \<and> 0 \<le> q_end q \<and> q_end q \<le> len \<longrightarrow>
      normalize_reg reflen q = (q, [])"
    using assms by (auto simp: normalize_reg_def Let_def)
  from f w r i show ?thesis by blast
qed

theorem normalize_reg_clamps_witness:
  "fst (normalize_reg (\<lambda>k. 1000) \<lparr>q_beg = - 10, q_end = 1050, tok = ()\<rparr>) = \<lparr>q_beg = 0, q_end = 1000, tok = ()\<rparr> \<and>
   length (snd (normalize_reg (\<lambda>k. 1000) \<lparr>q_beg = - 10, q_end = 1050, tok = ()\<rparr>)) = 2 \<and>
   normalize_reg (\<lambda>k. 1000) \<lparr>q_beg = 5, q_end = 20, tok = ()\<rparr> = (\<lparr>q_beg = 5, q_end = 20, tok = ()\<rparr>, [])"
  using normalize_reg_clamps [of 1000 "\<lambda>k. 1000" "\<lparr>q_beg = - 10, q_end = 1050, tok = ()\<rparr>"]
    normalize_reg_clamps [of 1000 "\<lambda>k. 1000" "\<lparr>q_beg = 5, q_end = 20, tok = ()\<rparr>"]
  by simp

text \<open>
  C7 as stated fails in the order of the checks: for begin -10 and end 1050 against a
  length of 1000 the first warning is the one for the end above the length and the second
  the one for the negative begin; with the negative endpoints handled first, as stated,
  they would come the other way round.
\<close>

theorem normalize_reg_order_counterexample:
  "snd (normalize_reg (\<lambda>k. 1000) \<lparr>q_beg = - 10, q_end = 1050, tok = ()\<rparr>) =
     [''region end 1050 greater than chromosome length 1000, truncated.'',
      ''region beg %d negative, truncated to 0.''] \<and>
   snd (spec_normalize_reg (\<lambda>k. 1000) \<lparr>q_beg = - 10, q_end = 1050, tok = ()\<rparr>) =
     [''region beg %d negative, truncated to 0.'',
      ''region end 1050 greater than chromosome length 1000, truncated.''] \<and>
   normalize_reg (\<lambda>k. 1000) \<lparr>q_beg = - 10, q_end = 1050, tok = ()\<rparr> \<noteq> spec_normalize_reg (\<lambda>k. 1000) \<lparr>q_beg = - 10, q_end = 1050, tok = ()\<rparr>"
proof -
  have a: "snd (normalize_reg (\<lambda>k. 1000) \<lparr>q_beg = - 10, q_end = 1050, tok = ()\<rparr>) =
     [''region end 1050 greater than chromosome length 1000, truncated.'',
      ''region beg %d negative, truncated to 0.'']"
    by code_simp
  have b: "snd (spec_normalize_reg (\<lambda>k. 1000) \<lparr>q_beg = - 10, q_end = 1050, tok = ()\<rparr>) =
     [''region beg %d negative, truncated to 0.'',
      ''region end 1050 greater than chromosome length 1000, truncated.'']"
    by code_simp
  have "snd (normalize_reg (\<lambda>k. 1000) \<lparr>q_beg = - 10, q_end = 1050, tok = ()\<rparr>) \<noteq> snd (spec_normalize_reg (\<lambda>k. 1000) \<lparr>q_beg = - 10, q_end = 1050, tok = ()\<rparr>)"
    unfolding a b by simp
  then have "normalize_reg (\<lambda>k. 1000) \<lparr>q_beg = - 10, q_end = 1050, tok = ()\<rparr> \<noteq> spec_normalize_reg (\<lambda>k. 1000) \<lparr>q_beg = - 10, q_end = 1050, tok = ()\<rparr>"
    by metis
  with a b show ?thesis by blast
qed

text \<open>
  C8. In the intergenic description each flank has its own direction, taken from the
  strand of its own gene: the 5' flank reads \<open>downstream\<close> when its strand is \<open>+\<close> and
  \<open>upstream\<close> otherwise, the 3' flank reads \<open>downstream\<close> when its strand is \<open>-\<close> and
  \<open>upstream\<close> otherwise, and a flank without a strand has no direction: its text is the
  distance alone.
\<close>

theorem intergenic_flank_direction:
  assumes "e5_dist a = Some d5" and "e3_dist a = Some d3"
  shows
  "RegIntergenicAnno_format0 a =
     Returns (''intergenic_between_'' @ fmt_s (e5_name a) @ ''('' @ str_int d5 @ ''_bp''
       @ (case e5_strand a of None \<Rightarrow> []
          | Some s \<Rightarrow> ''_'' @ (if s = ''+'' then ''downstream'' else ''upstream''))
       @ '')_and_'' @ fmt_s (e3_name a) @ ''('' @ str_int d3 @ ''_bp''
       @ (case e3_strand a of None \<Rightarrow> []
          | Some s \<Rightarrow> ''_'' @ (if s = ''-'' then ''downstream'' else ''upstream''))
       @ '')'') \<and>
   e5_stream a = map_option (\<lambda>s. if s = ''+'' then ''downstream'' else ''upstream'') (e5_strand a) \<and>
   e3_stream a = map_option (\<lambda>s. if s = ''-'' then ''downstream'' else ''upstream'') (e3_strand a)"
  using assms
  by (auto simp: RegIntergenicAnno_format0_def format_group_def fmt_d_Some then_do_def
      e5_stream_def e3_stream_def fmt_s_def split: option.splits)

theorem intergenic_flank_direction_witness:
  "RegIntergenicAnno_format0
     \<lparr>e5_name = Some ''BRCA1'', e5_dist = Some 1234567, e5_strand = None,
      e3_name = Some ''NBR2'', e3_dist = Some 890, e3_strand = Some ''-''\<rparr> =
     Returns (''intergenic_between_BRCA1('' @ str_int 1234567 @ ''_bp)_and_NBR2(''
                @ str_int 890 @ ''_bp_downstream)'') \<and>
   RegIntergenicAnno_format0
     \<lparr>e5_name = Some ''BRCA1'', e5_dist = Some 12, e5_strand = Some ''+'',
      e3_name = Some ''NBR2'', e3_dist = Some 890, e3_strand = Some ''+''\<rparr> =
     Returns (''intergenic_between_BRCA1('' @ str_int 12 @ ''_bp_downstream)_and_NBR2(''
                @ str_int 890 @ ''_bp_upstream)'')"
proof -
  have a: "RegIntergenicAnno_format0
     \<lparr>e5_name = Some ''BRCA1'', e5_dist = Some 1234567, e5_strand = None,
      e3_name = Some ''NBR2'', e3_dist = Some 890, e3_strand = Some ''-''\<rparr> =
     Returns (''intergenic_between_BRCA1('' @ str_int 1234567 @ ''_bp)_and_NBR2(''
                @ str_int 890 @ ''_bp_downstream)'')"
    using intergenic_flank_direction [of
     "\<lparr>e5_name = Some ''BRCA1'', e5_dist = Some 1234567, e5_strand = None,
      e3_name = Some ''NBR2'', e3_dist = Some 890, e3_strand = Some ''-''\<rparr>" 1234567 890]
    by (simp add: fmt_s_def)
  have b: "RegIntergenicAnno_format0
     \<lparr>e5_name = Some ''BRCA1'', e5_dist = Some 12, e5_strand = Some ''+'',
      e3_name = Some ''NBR2'', e3_dist = Some 890, e3_strand = Some ''+''\<rparr> =
     Returns (''intergenic_between_BRCA1('' @ str_int 12 @ ''_bp_downstream)_and_NBR2(''
                @ str_int 890 @ ''_bp_upstream)'')"
    using intergenic_flank_direction [of
     "\<lparr>e5_name = Some ''BRCA1'', e5_dist = Some 12, e5_strand = Some ''+'',
      e3_name = Some ''NBR2'', e3_dist = Some 890, e3_strand = Some ''+''\<rparr>" 12 890]
    by (simp add: fmt_s_def)
  from a b show ?thesis by (rule conjI)
qed

text \<open>
  C9 (as amended). The distance in the intergenic description is the plain decimal text of
  the number: digits only, after a minus sign when the number is negative, and no comma or
  other separator, whatever the locale. The text of a flank without a strand is this text
  followed by \<open>_bp\<close>.
\<close>

theorem format_group_plain_decimal:
  "format_group (Some d) = Returns (str_int d) \<and>
   CHR '','' \<notin> set (str_int d) \<and>
   (0 \<le> d \<longrightarrow> isdigit (str_int d) \<and> int_of_digits (str_int d) = d) \<and>
   (d < 0 \<longrightarrow> str_int d = CHR ''-'' # str_int (- d) \<and> isdigit (str_int (- d))
             \<and> int_of_digits (str_int (- d)) = - d) \<and>
   (e5_dist a = Some d \<and> e5_strand a = None \<and> e3_dist a = Some d3 \<longrightarrow>
      (\<exists>rest. RegIntergenicAnno_format0 a =
         Returns (''intergenic_between_'' @ fmt_s (e5_name a) @ ''('' @ str_int d @ ''_bp)'' @ rest)))"
proof (intro conjI impI)
  show "format_group (Some d) = Returns (str_int d)"
    by (simp add: format_group_def fmt_d_Some)
  show "CHR '','' \<notin> set (str_int d)" by (rule str_int_no_comma)
next
  assume "0 \<le> d"
  then show "isdigit (str_int d)" "int_of_digits (str_int d) = d"
    by (simp_all add: str_int_def isdigit_str_nat int_of_digits_str_nat)
next
  assume "d < 0"
  then show "str_int d = CHR ''-'' # str_int (- d)" "isdigit (str_int (- d))"
    "int_of_digits (str_int (- d)) = - d"
    by (simp_all add: str_int_def isdigit_str_nat int_of_digits_str_nat)
next
  assume "e5_dist a = Some d \<and> e5_strand a = None \<and> e3_dist a = Some d3"
  then show "\<exists>rest. RegIntergenicAnno_format0 a =
         Returns (''intergenic_between_'' @ fmt_s (e5_name a) @ ''('' @ str_int d @ ''_bp)'' @ rest)"
    by (simp add: RegIntergenicAnno_format0_def format_group_def fmt_d_Some then_do_def
        split: option.splits)
qed

theorem format_group_plain_decimal_witness:
  "isdigit (str_int 1234567) \<and> int_of_digits (str_int 1234567) = 1234567 \<and>
   str_int (- 42) = CHR ''-'' # str_int (- (- 42)) \<and>
   (\<exists>rest. RegIntergenicAnno_format0
      \<lparr>e5_name = Some ''BRCA1'', e5_dist = Some 1234567, e5_strand = None,
      e3_name = Some ''NBR2'', e3_dist = Some 890, e3_strand = Some ''-''\<rparr> =
      Returns (''intergenic_between_'' @ fmt_s (Some ''BRCA1'') @ ''('' @ str_int 1234567
                 @ ''_bp)'' @ rest))"
proof -
  have p: "(0::int) \<le> 1234567" and n: "(- 42::int) < 0" by simp_all
  have h: "e5_dist \<lparr>e5_name = Some ''BRCA1'', e5_dist = Some 1234567, e5_strand = None,
      e3_name = Some ''NBR2'', e3_dist = Some 890, e3_strand = Some ''-''\<rparr> = Some 1234567 \<and>
     e5_strand \<lparr>e5_name = Some ''BRCA1'', e5_dist = Some 1234567, e5_strand = None,
      e3_name = Some ''NBR2'', e3_dist = Some 890, e3_strand = Some ''-''\<rparr> = None \<and>
     e3_dist \<lparr>e5_name = Some ''BRCA1'', e5_dist = Some 1234567, e5_strand = None,
      e3_name = Some ''NBR2'', e3_dist = Some 890, e3_strand = Some ''-''\<rparr> = Some 890"
    by simp
  have e: "e5_name \<lparr>e5_name = Some ''BRCA1'', e5_dist = Some 1234567, e5_strand = None,
      e3_name = Some ''NBR2'', e3_dist = Some 890, e3_strand = Some ''-''\<rparr> = Some ''BRCA1''"
    by simp
  note t1 = format_group_plain_decimal [of 1234567
      "\<lparr>e5_name = Some ''BRCA1'', e5_dist = Some 1234567, e5_strand = None,
      e3_name = Some ''NBR2'', e3_dist = Some 890, e3_strand = Some ''-''\<rparr>" 890]
  note t2 = format_group_plain_decimal [of "- 42"
      "\<lparr>e5_name = Some ''BRCA1'', e5_dist = Some 1234567, e5_strand = None,
      e3_name = Some ''NBR2'', e3_dist = Some 890, e3_strand = Some ''-''\<rparr>" 890]
  from t1 p have a: "isdigit (str_int 1234567) \<and> int_of_digits (str_int 1234567) = 1234567"
    by blast
  from t2 n have b: "str_int (- 42) = CHR ''-'' # str_int (- (- 42))"
    by blast
  from t1 h have c: "\<exists>rest. RegIntergenicAnno_format0
      \<lparr>e5_name = Some ''BRCA1'', e5_dist = Some 1234567, e5_strand = None,
      e3_name = Some ''NBR2'', e3_dist = Some 890, e3_strand = Some ''-''\<rparr> =
      Returns (''intergenic_between_'' @ fmt_s (Some ''BRCA1'') @ ''('' @ str_int 1234567
                 @ ''_bp)'' @ rest)"
    unfolding e by blast
  from a b c show ?thesis by blast
qed

text \<open>
  C9 as stated fails: \<open>format_group\<close> asks for no grouping, and 1234567 is rendered as
  \<open>1234567_bp\<close>, not as \<open>1,234,567_bp\<close>.
\<close>

theorem format_group_no_grouping_counterexample:
  "format_group (Some 1234567) = Returns ''1234567'' \<and>
   format_group (Some 1234567) \<noteq> Returns ''1,234,567'' \<and>
   RegIntergenicAnno_format0
     \<lparr>e5_name = Some ''BRCA1'', e5_dist = Some 1234567, e5_strand = None,
      e3_name = Some ''NBR2'', e3_dist = Some 890, e3_strand = Some ''-''\<rparr> =
     Returns ''intergenic_between_BRCA1(1234567_bp)_and_NBR2(890_bp_downstream)''"
  by (simp add: format_group_def fmt_d_def RegIntergenicAnno_format0_def then_do_def
      e3_stream_def fmt_s_def str_int_example str_int_890)

text \<open>
  C10. \<open>add n\<close> followed by \<open>subtract n\<close> gives the position back when the offset is 0 at
  the start, and when it is non-zero and stays non-zero after adding \<open>n\<close>. When the non-zero
  offset is \<open>- n\<close>, \<open>add\<close> brings the offset to 0, \<open>subtract\<close> then works on the base, and the
  result is base \<open>- n\<close> with offset 0, which is not the position at the start.
\<close>

theorem add_subtract_roundtrip:
  "((tpos p = 0 \<or> (tpos p \<noteq> 0 \<and> tpos p + n \<noteq> 0)) \<longrightarrow> subtract (add p n) n = p) \<and>
   ((tpos p \<noteq> 0 \<and> tpos p = - n) \<longrightarrow>
      subtract (add p n) n = \<lparr>pos = pos p - n, tpos = 0\<rparr> \<and> subtract (add p n) n \<noteq> p)"
proof (intro conjI impI)
  assume "tpos p = 0 \<or> (tpos p \<noteq> 0 \<and> tpos p + n \<noteq> 0)"
  then show "subtract (add p n) n = p"
    by (auto simp: add_def subtract_def)
next
  assume h: "tpos p \<noteq> 0 \<and> tpos p = - n"
  then have a: "add p n = p\<lparr>tpos := 0\<rparr>"
    by (simp add: add_def)
  show "subtract (add p n) n = \<lparr>pos = pos p - n, tpos = 0\<rparr>"
    unfolding a by (simp add: subtract_def)
  then show "subtract (add p n) n \<noteq> p"
    using h by (cases p) auto
qed

theorem add_subtract_roundtrip_witness:
  "subtract (add \<lparr>pos = 10, tpos = 0\<rparr> 4) 4 = \<lparr>pos = 10, tpos = 0\<rparr> \<and>
   subtract (add \<lparr>pos = 10, tpos = 2\<rparr> 4) 4 = \<lparr>pos = 10, tpos = 2\<rparr> \<and>
   subtract (add \<lparr>pos = 10, tpos = - 3\<rparr> 3) 3 = \<lparr>pos = 7, tpos = 0\<rparr> \<and>
   subtract (add \<lparr>pos = 10, tpos = - 3\<rparr> 3) 3 \<noteq> \<lparr>pos = 10, tpos = - 3\<rparr>"
  using add_subtract_roundtrip [of "\<lparr>pos = 10, tpos = 0\<rparr>" 4]
    add_subtract_roundtrip [of "\<lparr>pos = 10, tpos = 2\<rparr>" 4]
    add_subtract_roundtrip [of "\<lparr>pos = 10, tpos = - 3\<rparr>" 3]
  by simp

end
